theory Spec2Isabelle
  imports Complex_Main "HOL-Library.AList" "HOL-Library.Sublist"
begin

section \<open>Python values\<close>

text \<open>
  A Python \<open>str\<close> is a sequence of Unicode code points, so \<open>len\<close> is \<open>length\<close>.
  The literals of the source are ASCII and are written \<open>lit ''...''\<close>.
\<close>

type_synonym pystr = "nat list"

definition lit :: "string \<Rightarrow> pystr" where
  "lit s = map of_char s"

text \<open>
  The values the scripts handle: what \<open>json.load\<close> returns, what the service clients
  return, and the page dictionaries. A \<open>dict\<close> is an association list in insertion
  order; \<open>'f\<close> is the type of floating-point numbers, which the scripts never inspect.
\<close>

datatype 'f pyval =
    PNone
  | PBool bool
  | PInt int
  | PFloat 'f
  | PStr pystr
  | PList "'f pyval list"
  | PDict "(pystr \<times> 'f pyval) list"

type_synonym 'f dict = "(pystr \<times> 'f pyval) list"

text \<open>
  Exceptions carry their class and message. \<open>ClientError\<close> stands for botocore's class
  and its subclasses, \<open>OtherError\<close> for any class the scripts do not name in an
  \<open>except\<close> clause. \<open>ConfigurationError\<close> is the class of the specification's
  error taxonomy; no script defines or raises it.
\<close>

datatype exc_class =
    ClientError
  | JSONDecodeError
  | KeyError
  | TypeError
  | AttributeError
  | ValueError
  | UnicodeDecodeError
  | UnicodeEncodeError
  | ConfigurationError
  | OtherError string

datatype exc = Exc (exc_cls: exc_class) (exc_msg: pystr)

subsection \<open>Dictionary and string operations\<close>

text \<open>\<open>d[k]\<close>: raises \<open>KeyError\<close> when the key is missing.\<close>

definition py_getitem :: "'f dict \<Rightarrow> pystr \<Rightarrow> exc + 'f pyval" where
  "py_getitem d k = (case map_of d k of None \<Rightarrow> Inl (Exc KeyError k) | Some v \<Rightarrow> Inr v)"

text \<open>\<open>d.get(k)\<close>: \<open>None\<close> when the key is missing.\<close>

definition py_get :: "'f dict \<Rightarrow> pystr \<Rightarrow> 'f pyval" where
  "py_get d k = (case map_of d k of None \<Rightarrow> PNone | Some v \<Rightarrow> v)"

text \<open>\<open>d[k] = v\<close>: replaces the value in place, or appends a new key.\<close>

definition py_setitem :: "'f dict \<Rightarrow> pystr \<Rightarrow> 'f pyval \<Rightarrow> 'f dict" where
  "py_setitem d k v = AList.update k v d"

text \<open>\<open>k in d\<close> and \<open>list(d.keys())\<close>.\<close>

definition py_haskey :: "'f dict \<Rightarrow> pystr \<Rightarrow> bool" where
  "py_haskey d k = (map_of d k \<noteq> None)"

definition py_keys :: "'f dict \<Rightarrow> pystr list" where
  "py_keys d = map fst d"

text \<open>\<open>x.get(k)\<close> on any value: only a \<open>dict\<close> has the method.\<close>

fun val_get :: "'f pyval \<Rightarrow> pystr \<Rightarrow> exc + 'f pyval" where
  "val_get (PDict d) k = Inr (py_get d k)"
| "val_get _ k = Inl (Exc AttributeError (lit ''object has no attribute get''))"

text \<open>\<open>x[k]\<close> with a string key on any value: a \<open>dict\<close> looks the key up.\<close>

fun val_getitem :: "'f pyval \<Rightarrow> pystr \<Rightarrow> exc + 'f pyval" where
  "val_getitem (PDict d) k = py_getitem d k"
| "val_getitem _ k = Inl (Exc TypeError (lit ''object is not subscriptable by str''))"

text \<open>
  Truth value of a Python object, as \<open>if x:\<close> and \<open>not x\<close> test it; a float is false
  when it equals zero.
\<close>

fun py_truthy :: "('f::zero) pyval \<Rightarrow> bool" where
  "py_truthy PNone = False"
| "py_truthy (PBool b) = b"
| "py_truthy (PInt i) = (i \<noteq> 0)"
| "py_truthy (PFloat x) = (x \<noteq> 0)"
| "py_truthy (PStr s) = (s \<noteq> [])"
| "py_truthy (PList xs) = (xs \<noteq> [])"
| "py_truthy (PDict d) = (d \<noteq> [])"

text \<open>\<open>len(x)\<close>: defined on strings, lists and dicts, \<open>TypeError\<close> otherwise.\<close>

fun py_len :: "'f pyval \<Rightarrow> exc + nat" where
  "py_len (PStr s) = Inr (length s)"
| "py_len (PList xs) = Inr (length xs)"
| "py_len (PDict d) = Inr (length d)"
| "py_len _ = Inl (Exc TypeError (lit ''object has no len()''))"

text \<open>\<open>s.startswith(p)\<close> and \<open>p in s\<close> on strings.\<close>

definition py_startswith :: "pystr \<Rightarrow> pystr \<Rightarrow> bool" where
  "py_startswith s p = (take (length p) s = p)"

definition py_contains :: "pystr \<Rightarrow> pystr \<Rightarrow> bool" where
  "py_contains p s = sublist p s"

text \<open>
  \<open>s.strip()\<close> removes the leading and trailing whitespace of \<open>s\<close>. The whitespace
  characters are those of \<open>str.isspace\<close>.
\<close>

definition py_isspace :: "nat \<Rightarrow> bool" where
  "py_isspace c \<longleftrightarrow>
     (9 \<le> c \<and> c \<le> 13) \<or> (28 \<le> c \<and> c \<le> 32) \<or> c = 133 \<or> c = 160 \<or> c = 5760
     \<or> (8192 \<le> c \<and> c \<le> 8202) \<or> c = 8232 \<or> c = 8233 \<or> c = 8239 \<or> c = 8287
     \<or> c = 12288"

definition py_strip :: "pystr \<Rightarrow> pystr" where
  "py_strip s = rev (dropWhile py_isspace (rev (dropWhile py_isspace s)))"

subsection \<open>Log output\<close>

text \<open>
  A message is the f-string as written: its literal parts and the interpolated values,
  in order. Every \<open>logger\<close> call is recorded with its level; the sink of the scripts
  shows the levels from \<open>LOG_LEVEL\<close> (default \<open>INFO\<close>) upwards.
\<close>

datatype level = DEBUG | INFO | WARNING | ERROR

datatype 'f frag =
    L string
  | S pystr
  | V "'f pyval"
  | E exc

type_synonym 'f log_line = "level \<times> 'f frag list"

subsection \<open>Services\<close>

text \<open>
  A service outside the repository answers a request and is left in a new state.
  \<open>replay\<close> is what it answers to a list of requests sent one after the other, each
  request paired with its answer, and the state it is left in.
\<close>

fun replay :: "('s \<Rightarrow> 'r \<Rightarrow> 'a \<times> 's) \<Rightarrow> 's \<Rightarrow> 'r list \<Rightarrow> ('r \<times> 'a) list \<times> 's" where
  "replay service s [] = ([], s)"
| "replay service s (r # rs) =
     (case service s r of
        (a, s1) \<Rightarrow> (case replay service s1 rs of (answers, s2) \<Rightarrow> ((r, a) # answers, s2)))"

section \<open>generate\_embeddings.py\<close>

subsection \<open>extract\_text\_from\_pdf\<close>

text \<open>
  \<open>fitz.open\<close> either raises or gives a document; \<open>len(doc)\<close> is its number of
  pages, and \<open>doc.load_page(i).get_text()\<close> gives the text of page \<open>i\<close> or raises.
  A document is the list of these per-page outcomes, in document order.
\<close>

type_synonym fitz_doc = "(exc + pystr) list"

text \<open>The body of the \<open>for page_num in range(len(doc))\<close> loop, from \<open>page_num\<close> on.\<close>

fun extract_pages ::
  "nat \<Rightarrow> fitz_doc \<Rightarrow> 'f dict list \<times> 'f log_line list
     \<Rightarrow> (exc + 'f dict list) \<times> 'f log_line list" where
  "extract_pages page_num [] (pages, lg) = (Inr pages, lg)"
| "extract_pages page_num (p # doc) (pages, lg) =
     (case p of
        Inl e \<Rightarrow> (Inl e, lg)
      | Inr text \<Rightarrow>
          extract_pages (page_num + 1) doc
            (pages @ [[(lit ''page_number'', PInt (int page_num + 1)),
                       (lit ''text'', PStr (py_strip text))]],
             lg @ [(DEBUG, [L ''Extracted text from page '', V (PInt (int page_num + 1)),
                             L '': '', S (take 100 text), L ''...''])]))"

definition extract_text_from_pdf ::
  "(pystr \<Rightarrow> exc + fitz_doc) \<Rightarrow> pystr \<Rightarrow> (exc + 'f dict list) \<times> 'f log_line list" where
  "extract_text_from_pdf fitz_open pdf_path =
     (let log0 = [(INFO, [L ''Opening PDF file: '', S pdf_path])] in
      case fitz_open pdf_path of
        Inl e \<Rightarrow> (Inl e, log0 @ [(ERROR, [L ''Failed to open PDF: '', E e])])
      | Inr doc \<Rightarrow>
          (let log1 = log0 @ [(INFO, [L ''PDF file opened successfully.'']),
                             (INFO, [L ''Extracting text from '', V (PInt (int (length doc))),
                                     L '' pages.''])] in
           case extract_pages 0 doc ([], log1) of
             (Inl e, log2) \<Rightarrow> (Inl e, log2)
           | (Inr pages, log2) \<Rightarrow>
               (Inr pages,
                log2 @ [(INFO, [L ''Text extraction completed for '',
                                V (PInt (int (length pages))), L '' pages.''])])))"

subsection \<open>create\_embeddings\<close>

text \<open>
  \<open>create_embeddings\<close> writes into the page dictionaries it is given and returns the
  very list it received, so the dictionaries live in a store: \<open>pages\<close> is a list of
  addresses, and the same dictionary may occur in it more than once.

  \<open>bedrock_client\<close> stands for \<open>BedrockEmbeddings(client, model_id).embed_query\<close>: given
  the model, the state of the service and the argument, it raises or returns a vector,
  and leaves the service in a new state. Every call is recorded with its outcome.
\<close>

type_synonym addr = nat

type_synonym ('e, 'f) bedrock_client = "pystr \<Rightarrow> 'e \<Rightarrow> 'f pyval \<Rightarrow> (exc + 'f list) \<times> 'e"

record ('e, 'f) embed_world =
  heap :: "addr \<Rightarrow> 'f dict"
  bedrock :: 'e
  embed_calls :: "('f pyval \<times> (exc + 'f list)) list"
  embed_log :: "'f log_line list"

definition embed_info :: "level \<Rightarrow> 'f frag list \<Rightarrow> ('e, 'f) embed_world \<Rightarrow> ('e, 'f) embed_world" where
  "embed_info lv msg w = w\<lparr>embed_log := embed_log w @ [(lv, msg)]\<rparr>"

text \<open>
  One iteration of \<open>for idx, page in enumerate(pages)\<close>. The first \<open>logger.debug\<close>
  reads \<open>page['page_number']\<close> outside the \<open>try\<close>, so a missing key leaves the
  function as \<open>KeyError\<close>. Inside the \<open>try\<close>, a missing \<open>text\<close> and a failing
  \<open>embed_query\<close> are both caught, logged at \<open>ERROR\<close>, and the loop goes on.
\<close>

definition embed_page ::
  "('e, 'f) bedrock_client \<Rightarrow> pystr \<Rightarrow> addr \<Rightarrow> ('e, 'f) embed_world
     \<Rightarrow> (exc + unit) \<times> ('e, 'f) embed_world" where
  "embed_page bedrock_client model_id a w =
     (let page = heap w a in
      case py_getitem page (lit ''page_number'') of
        Inl e \<Rightarrow> (Inl e, w)
      | Inr pn \<Rightarrow>
          (let w1 = embed_info DEBUG [L ''Generating embedding for page '', V pn] w in
           case py_getitem page (lit ''text'') of
             Inl e \<Rightarrow>
               (Inr (), embed_info ERROR
                          [L ''Error creating embedding for page '', V pn, L '': '', E e] w1)
           | Inr text \<Rightarrow>
               (let (r, b) = bedrock_client model_id (bedrock w1) text;
                    w2 = w1\<lparr>bedrock := b, embed_calls := embed_calls w1 @ [(text, r)]\<rparr> in
                case r of
                  Inl e \<Rightarrow>
                    (Inr (), embed_info ERROR
                               [L ''Error creating embedding for page '', V pn, L '': '', E e] w2)
                | Inr embedding \<Rightarrow>
                    (Inr (), embed_info DEBUG
                               [L ''Embedding created for page '', V pn, L '': '',
                                V (PList (map PFloat (take 5 embedding))), L ''...'']
                               (w2\<lparr>heap := (heap w2)
                                     (a := py_setitem page (lit ''vector_field'')
                                             (PList (map PFloat embedding)))\<rparr>)))))"

fun embed_pages ::
  "('e, 'f) bedrock_client \<Rightarrow> pystr \<Rightarrow> addr list \<Rightarrow> ('e, 'f) embed_world
     \<Rightarrow> (exc + unit) \<times> ('e, 'f) embed_world" where
  "embed_pages bedrock_client model_id [] w = (Inr (), w)"
| "embed_pages bedrock_client model_id (a # pages) w =
     (case embed_page bedrock_client model_id a w of
        (Inl e, w') \<Rightarrow> (Inl e, w')
      | (Inr u, w') \<Rightarrow> embed_pages bedrock_client model_id pages w')"

definition create_embeddings ::
  "addr list \<Rightarrow> ('e, 'f) bedrock_client \<Rightarrow> pystr \<Rightarrow> ('e, 'f) embed_world
     \<Rightarrow> (exc + addr list) \<times> ('e, 'f) embed_world" where
  "create_embeddings pages bedrock_client model_id w =
     (let w0 = embed_info INFO [L ''Creating embeddings using model: '', S model_id] w in
      case embed_pages bedrock_client model_id pages w0 of
        (Inl e, w1) \<Rightarrow> (Inl e, w1)
      | (Inr u, w1) \<Rightarrow> (Inr pages, embed_info INFO [L ''Embeddings creation completed.''] w1))"

section \<open>ingest\_docs\_with\_embeddings.py\<close>

text \<open>
  \<open>client.index(index=..., body=...)\<close> is a request to the search engine. The script
  passes no \<open>id\<close>; the field is there to say so. The client raises or returns the
  response, and the engine is left in a new state. Every call is recorded with its outcome.
\<close>

record 'f index_request =
  req_index :: pystr
  req_body :: "'f dict"
  req_id :: "pystr option"

type_synonym ('s, 'f) opensearch_index = "'s \<Rightarrow> 'f index_request \<Rightarrow> (exc + 'f pyval) \<times> 's"

record ('s, 'f) ingest_world =
  engine :: 's
  index_calls :: "('f index_request \<times> (exc + 'f pyval)) list"
  ingest_log :: "'f log_line list"

definition ingest_info :: "level \<Rightarrow> 'f frag list \<Rightarrow> ('s, 'f) ingest_world \<Rightarrow> ('s, 'f) ingest_world" where
  "ingest_info lv msg w = w\<lparr>ingest_log := ingest_log w @ [(lv, msg)]\<rparr>"

text \<open>
  The \<open>except Exception\<close> block of the loop. It calls \<open>page.get\<close> itself, so on a
  \<open>page\<close> that is no dictionary it raises in turn, and that exception leaves
  \<open>ingest_data\<close>.
\<close>

definition index_failed ::
  "'f pyval \<Rightarrow> exc \<Rightarrow> ('s, 'f) ingest_world \<Rightarrow> (exc + unit) \<times> ('s, 'f) ingest_world" where
  "index_failed page e w =
     (case val_get page (lit ''page_number'') of
        Inl e' \<Rightarrow> (Inl e', w)
      | Inr pn \<Rightarrow>
          (Inr (), ingest_info ERROR [L ''Problematic page data: '', V page]
                     (ingest_info ERROR [L ''Error indexing page '', V pn, L '': '', E e] w)))"

text \<open>One iteration of \<open>for page in data\<close>.\<close>

definition ingest_page ::
  "('s, 'f) opensearch_index \<Rightarrow> pystr \<Rightarrow> 'f pyval \<Rightarrow> ('s, 'f) ingest_world
     \<Rightarrow> (exc + unit) \<times> ('s, 'f) ingest_world" where
  "ingest_page client index_name page w =
     (case val_get page (lit ''text'') of
        Inl e \<Rightarrow> index_failed page e w
      | Inr text \<Rightarrow>
     (case val_get page (lit ''vector_field'') of
        Inl e \<Rightarrow> index_failed page e w
      | Inr vec \<Rightarrow>
          (let document = [(lit ''text'', text), (lit ''vector_field'', vec)];
               request = \<lparr>req_index = index_name, req_body = document, req_id = None\<rparr>;
               (r, s) = client (engine w) request;
               w1 = w\<lparr>engine := s, index_calls := index_calls w @ [(request, r)]\<rparr> in
           case r of
             Inl e \<Rightarrow> index_failed page e w1
           | Inr response \<Rightarrow>
          (case val_get page (lit ''page_number'') of
             Inl e \<Rightarrow> index_failed page e w1
           | Inr pn \<Rightarrow>
          (case val_getitem response (lit ''result'') of
             Inl e \<Rightarrow> index_failed page e w1
           | Inr result \<Rightarrow>
               (Inr (), ingest_info INFO [L ''Indexed page '', V pn, L '': '', V result] w1))))))"

fun ingest_pages ::
  "('s, 'f) opensearch_index \<Rightarrow> pystr \<Rightarrow> 'f pyval list \<Rightarrow> ('s, 'f) ingest_world
     \<Rightarrow> (exc + unit) \<times> ('s, 'f) ingest_world" where
  "ingest_pages client index_name [] w = (Inr (), w)"
| "ingest_pages client index_name (page # data) w =
     (case ingest_page client index_name page w of
        (Inl e, w') \<Rightarrow> (Inl e, w')
      | (Inr u, w') \<Rightarrow> ingest_pages client index_name data w')"

definition ingest_data ::
  "('s, 'f) opensearch_index \<Rightarrow> pystr \<Rightarrow> 'f pyval \<Rightarrow> ('s, 'f) ingest_world
     \<Rightarrow> (exc + unit) \<times> ('s, 'f) ingest_world" where
  "ingest_data client index_name data w =
     (case data of
        PList pages \<Rightarrow> ingest_pages client index_name pages w
      | _ \<Rightarrow>
          (Inl (Exc ValueError (lit ''Invalid data format'')),
           ingest_info ERROR [L ''Data sample: '', V data, L ''...'']
             (ingest_info ERROR
                [L ''Error: Expected a list of dictionaries, but got the type of '', V data] w)))"

text \<open>
  The search engine is a service outside the repository. This is the behaviour the
  scripts rely on, as the specification describes it (writes are append-only): a request
  without an \<open>id\<close> is stored as a new document under an identifier of the engine's own;
  a request with an \<open>id\<close> replaces the document stored under it, if there is one.
  The state is the list of stored documents with their identifiers.
\<close>

type_synonym 'f stored_docs = "((nat + pystr) \<times> 'f dict) list"

definition append_only_index :: "('f stored_docs, 'f) opensearch_index" where
  "append_only_index docs request =
     (case req_id request of
        None \<Rightarrow>
          (Inr (PDict [(lit ''result'', PStr (lit ''created''))]),
           docs @ [(Inl (length docs), req_body request)])
      | Some i \<Rightarrow>
          (if map_of docs (Inr i) = None
           then (Inr (PDict [(lit ''result'', PStr (lit ''created''))]),
                 docs @ [(Inr i, req_body request)])
           else (Inr (PDict [(lit ''result'', PStr (lit ''updated''))]),
                 AList.update (Inr i) (req_body request) docs)))"

section \<open>delete\_index.py\<close>

text \<open>
  The two operations of \<open>opensearch_client.indices\<close> that the script uses:
  \<open>get_alias("*")\<close> and \<open>delete(index=...)\<close>. Each raises or returns the response and
  leaves the cluster in a new state. Every \<open>delete\<close> call is recorded with its outcome.
\<close>

record ('s, 'f) indices_client =
  get_alias :: "'s \<Rightarrow> (exc + 'f pyval) \<times> 's"
  indices_delete :: "'s \<Rightarrow> pystr \<Rightarrow> (exc + 'f pyval) \<times> 's"

record ('s, 'f) delete_world =
  cluster :: 's
  delete_calls :: "(pystr \<times> (exc + 'f pyval)) list"
  delete_log :: "'f log_line list"

definition delete_info :: "level \<Rightarrow> 'f frag list \<Rightarrow> ('s, 'f) delete_world \<Rightarrow> ('s, 'f) delete_world" where
  "delete_info lv msg w = w\<lparr>delete_log := delete_log w @ [(lv, msg)]\<rparr>"

text \<open>
  \<open>delete_opensearch_index\<close> returns \<open>response['acknowledged']\<close>, or \<open>False\<close> when
  the call or the lookup raises.
\<close>

definition delete_opensearch_index ::
  "('s, 'f) indices_client \<Rightarrow> pystr \<Rightarrow> ('s, 'f) delete_world \<Rightarrow> 'f pyval \<times> ('s, 'f) delete_world" where
  "delete_opensearch_index opensearch_client index_name w =
     (let w0 = delete_info INFO [L ''Trying to delete index '', S index_name] w;
          (r, s) = indices_delete opensearch_client (cluster w0) index_name;
          w1 = w0\<lparr>cluster := s, delete_calls := delete_calls w0 @ [(index_name, r)]\<rparr> in
      case r of
        Inl e \<Rightarrow>
          (PBool False,
           delete_info ERROR [L ''Error deleting index '', S index_name, L '': '', E e] w1)
      | Inr response \<Rightarrow>
          (let w2 = delete_info INFO [L ''Index '', S index_name, L '' deleted''] w1 in
           case val_getitem response (lit ''acknowledged'') of
             Inl e \<Rightarrow>
               (PBool False,
                delete_info ERROR [L ''Error deleting index '', S index_name, L '': '', E e] w2)
           | Inr acknowledged \<Rightarrow> (acknowledged, w2)))"

text \<open>\<open>list_all_indices\<close> returns the keys of the response, or \<open>[]\<close> on any exception.\<close>

definition list_all_indices ::
  "('s, 'f) indices_client \<Rightarrow> ('s, 'f) delete_world \<Rightarrow> pystr list \<times> ('s, 'f) delete_world" where
  "list_all_indices opensearch_client w =
     (let (r, s) = get_alias opensearch_client (cluster w);
          w1 = w\<lparr>cluster := s\<rparr> in
      case r of
        Inl e \<Rightarrow> ([], delete_info ERROR [L ''Error listing indices: '', E e] w1)
      | Inr indices \<Rightarrow>
          (case indices of
             PDict d \<Rightarrow> (py_keys d, w1)
           | _ \<Rightarrow>
               ([], delete_info ERROR
                      [L ''Error listing indices: '',
                       E (Exc AttributeError (lit ''object has no attribute keys''))] w1)))"

text \<open>The loop \<open>for index in indices\<close> of \<open>delete_all_indices\<close>.\<close>

fun delete_each ::
  "('s, 'f::zero) indices_client \<Rightarrow> pystr list \<Rightarrow> ('s, 'f) delete_world \<Rightarrow> ('s, 'f) delete_world" where
  "delete_each opensearch_client [] w = w"
| "delete_each opensearch_client (index # indices) w =
     (if py_startswith index (lit ''.'')
      then delete_each opensearch_client indices
             (delete_info INFO [L ''Skipping system index: '', S index] w)
      else
        (let (success, w1) = delete_opensearch_index opensearch_client index w in
         delete_each opensearch_client indices
           (if \<not> py_truthy success
            then delete_info WARNING [L ''Failed to delete index: '', S index] w1
            else w1)))"

definition delete_all_indices ::
  "('s, 'f::zero) indices_client \<Rightarrow> ('s, 'f) delete_world \<Rightarrow> ('s, 'f) delete_world" where
  "delete_all_indices opensearch_client w =
     (let (indices, w1) = list_all_indices opensearch_client w;
          w2 = delete_info INFO [L ''Found '', V (PInt (int (length indices))), L '' indices''] w1;
          w3 = delete_each opensearch_client indices w2;
          (remaining_indices, w4) = list_all_indices opensearch_client w3 in
      delete_info INFO [L ''Remaining indices after deletion: '',
                        V (PList (map PStr remaining_indices))] w4)"

section \<open>retrieve\_endpoint.py\<close>

text \<open>
  \<open>boto3.client('es', region_name=region)\<close> makes no request, but it can raise (on a
  region name that is no region, say); it is called before the \<open>try\<close>, so that
  exception leaves the function. \<open>boto3_client\<close> gives, for the region, the exception or
  the client, which is its \<open>describe_elasticsearch_domain\<close>: given the domain name it
  raises or returns the response. The function prints to standard output and to standard
  error; the lines are recorded with their stream.
\<close>

datatype stream = Stdout | Stderr

type_synonym 'f print_line = "stream \<times> 'f frag list"

type_synonym 'f es_client = "pystr \<Rightarrow> exc + 'f pyval"

text \<open>
  Inside the \<open>try\<close>, both \<open>except\<close> blocks only print, and a function that falls off
  its end returns \<open>None\<close>.
\<close>

definition get_opensearch_endpoint ::
  "(pystr \<Rightarrow> exc + ('f::zero) es_client) \<Rightarrow> pystr \<Rightarrow> pystr
     \<Rightarrow> (exc + 'f pyval) \<times> 'f print_line list" where
  "get_opensearch_endpoint boto3_client domain_name region =
     (case boto3_client region of
        Inl e \<Rightarrow> (Inl e, [])
      | Inr describe_elasticsearch_domain \<Rightarrow>
     (let out0 = [(Stdout, [L ''Attempting to describe OpenSearch domain: '', S domain_name])] in
      case describe_elasticsearch_domain domain_name of
        Inl e \<Rightarrow>
          (if exc_cls e = ClientError
           then (Inr PNone, out0 @ [(Stderr, [L ''ClientError: '', E e])])
           else (Inr PNone,
                 out0 @ [(Stderr, [L ''An error occurred during script execution: '', E e])]))
      | Inr response \<Rightarrow>
          (let out1 = out0 @ [(Stdout, [L ''Domain description retrieved successfully''])] in
           case val_getitem response (lit ''DomainStatus'') of
             Inl e \<Rightarrow>
               (Inr PNone,
                out1 @ [(Stderr, [L ''An error occurred during script execution: '', E e])])
           | Inr status \<Rightarrow>
          (case val_get status (lit ''Endpoint'') of
             Inl e \<Rightarrow>
               (Inr PNone,
                out1 @ [(Stderr, [L ''An error occurred during script execution: '', E e])])
           | Inr endpoint \<Rightarrow>
               (if py_truthy endpoint
                then (Inr endpoint, out1 @ [(Stdout, [L ''Endpoint: '', V endpoint])])
                else (Inr PNone, out1 @ [(Stderr, [L ''No endpoint found for the domain.''])]))))))"

section \<open>retrieve\_secret.py\<close>

text \<open>
  A Secrets Manager client has the two requests the script uses, \<open>list_secrets()\<close> and
  \<open>get_secret_value(SecretId=...)\<close>. Creating the client makes no request but can raise:
  \<open>boto3_client\<close> gives, for the region, the exception or the client. Both functions
  create their client before the \<open>try\<close>. \<open>json.loads\<close> is a parameter as well: it
  raises (\<open>JSONDecodeError\<close> on text that is no JSON) or returns the parsed value, an
  object being a \<open>dict\<close> in the order of the text.
\<close>

record 'f secrets_client =
  list_secrets :: "exc + 'f pyval"
  get_secret_value :: "'f pyval \<Rightarrow> exc + 'f pyval"

text \<open>\<open>x in y\<close> for a string \<open>x\<close>: substring of a string, element of a list, key of a dict.\<close>

fun py_in :: "pystr \<Rightarrow> 'f pyval \<Rightarrow> exc + bool" where
  "py_in p (PStr s) = Inr (py_contains p s)"
| "py_in p (PList xs) = Inr (PStr p \<in> set xs)"
| "py_in p (PDict d) = Inr (p \<in> set (py_keys d))"
| "py_in p _ = Inl (Exc TypeError (lit ''argument is not iterable''))"

text \<open>
  The \<open>except ClientError\<close> block of both functions logs and raises the exception again;
  any other exception leaves the function unlogged.
\<close>

definition raised :: "string \<Rightarrow> exc \<Rightarrow> 'f log_line list \<Rightarrow> (exc + 'a) \<times> 'f log_line list" where
  "raised msg e lg =
     (Inl e, if exc_cls e = ClientError then lg @ [(ERROR, [L msg, E e])] else lg)"

text \<open>The loop \<open>for secret in secrets\<close> of \<open>get_secret_name\<close>.\<close>

fun find_secret ::
  "pystr \<Rightarrow> 'f pyval list \<Rightarrow> 'f log_line list \<Rightarrow> (exc + 'f pyval) \<times> 'f log_line list" where
  "find_secret secret_pattern [] lg =
     (Inr PNone, lg @ [(WARNING, [L ''No secret found matching pattern: '', S secret_pattern])])"
| "find_secret secret_pattern (secret # secrets) lg =
     (case val_getitem secret (lit ''Name'') of
        Inl e \<Rightarrow> raised ''An error occurred while listing secrets: '' e lg
      | Inr name \<Rightarrow>
     (case py_in secret_pattern name of
        Inl e \<Rightarrow> raised ''An error occurred while listing secrets: '' e lg
      | Inr found \<Rightarrow>
          (if found
           then (Inr name, lg @ [(INFO, [L ''Found matching secret: '', V name])])
           else find_secret secret_pattern secrets lg)))"

text \<open>
  \<open>for secret in secrets\<close> goes through the elements of a list, the keys of a dict and
  the characters of a string; other values cannot be iterated.
\<close>

definition get_secret_name ::
  "(pystr \<Rightarrow> exc + 'f secrets_client) \<Rightarrow> pystr \<Rightarrow> pystr
     \<Rightarrow> (exc + 'f pyval) \<times> 'f log_line list" where
  "get_secret_name boto3_client region_name domain_name =
     (case boto3_client region_name of
        Inl e \<Rightarrow> (Inl e, [])
      | Inr client \<Rightarrow>
     (let lg = [(INFO, [L ''Attempting to list secrets in region '', S region_name])] in
      case list_secrets client of
        Inl e \<Rightarrow> raised ''An error occurred while listing secrets: '' e lg
      | Inr response \<Rightarrow>
     (case val_getitem response (lit ''SecretList'') of
        Inl e \<Rightarrow> raised ''An error occurred while listing secrets: '' e lg
      | Inr secrets \<Rightarrow>
     (case secrets of
        PList xs \<Rightarrow> find_secret domain_name xs lg
      | PDict d \<Rightarrow> find_secret domain_name (map PStr (py_keys d)) lg
      | PStr s \<Rightarrow> find_secret domain_name (map (\<lambda>c. PStr [c]) s) lg
      | _ \<Rightarrow> (Inl (Exc TypeError (lit ''object is not iterable'')), lg)))))"

text \<open>
  The loop \<open>for key, value in secret_dict.items()\<close>: one line per key, the value shown as
  \<open>'*' * len(value)\<close>. \<open>len\<close> raises on a value without a length.
\<close>

fun log_masked ::
  "(pystr \<times> 'f pyval) list \<Rightarrow> 'f log_line list \<Rightarrow> exc option \<times> 'f log_line list" where
  "log_masked [] lg = (None, lg)"
| "log_masked ((key, v) # items) lg =
     (case py_len v of
        Inl e \<Rightarrow> (Some e, lg)
      | Inr n \<Rightarrow>
          log_masked items (lg @ [(INFO, [L ''  '', S key, L '': '', S (replicate n 42)])]))"

text \<open>
  The \<open>else\<close> block of \<open>get_secret\<close>, from the response on. Only \<open>JSONDecodeError\<close> is
  caught; an exception of \<open>.items()\<close> or \<open>len\<close> leaves the function.
\<close>

definition show_secret ::
  "(pystr \<Rightarrow> exc + 'f pyval) \<Rightarrow> 'f pyval \<Rightarrow> 'f log_line list
     \<Rightarrow> (exc + 'f pyval) \<times> 'f log_line list" where
  "show_secret json_loads response lg =
     (case val_getitem response (lit ''SecretString'') of
        Inl e \<Rightarrow> (Inl e, lg)
      | Inr secret \<Rightarrow>
          (let lg1 = lg @ [(INFO, [L ''Secret retrieved successfully''])] in
           case secret of
             PStr s \<Rightarrow>
               (case json_loads s of
                  Inl e \<Rightarrow>
                    (if exc_cls e = JSONDecodeError
                     then (Inr secret,
                           lg1 @ [(INFO, [L ''Secret is not in JSON format. Raw secret (masked):'']),
                                  (INFO, [S (replicate (length s) 42)])])
                     else (Inl e, lg1))
                | Inr secret_dict \<Rightarrow>
                    (let lg2 = lg1 @ [(INFO, [L ''Secret contents (key-value pairs):''])] in
                     case secret_dict of
                       PDict items \<Rightarrow>
                         (case log_masked items lg2 of
                            (Some e, lg3) \<Rightarrow> (Inl e, lg3)
                          | (None, lg3) \<Rightarrow> (Inr secret, lg3))
                     | _ \<Rightarrow>
                         (Inl (Exc AttributeError (lit ''object has no attribute items'')), lg2)))
           | _ \<Rightarrow>
               (Inl (Exc TypeError (lit ''the JSON object must be str, bytes or bytearray'')),
                lg1)))"

definition get_secret ::
  "(pystr \<Rightarrow> exc + 'f secrets_client) \<Rightarrow> (pystr \<Rightarrow> exc + 'f pyval)
     \<Rightarrow> (exc + 'f pyval) \<times> 'f log_line list" where
  "get_secret boto3_client json_loads =
     (let region_name = lit ''eu-central-1'';
          domain_name = lit ''rag'' in
      case get_secret_name boto3_client region_name domain_name of
        (Inl e, lg) \<Rightarrow> (Inl e, lg)
      | (Inr secret_name, lg) \<Rightarrow>
     (case boto3_client region_name of
        Inl e \<Rightarrow> (Inl e, lg)
      | Inr client \<Rightarrow>
          (let lg1 = lg @ [(INFO, [L ''Attempting to retrieve secret: '', V secret_name])] in
           case get_secret_value client secret_name of
             Inl e \<Rightarrow> raised ''An error occurred: '' e lg1
           | Inr get_secret_value_response \<Rightarrow>
               show_secret json_loads get_secret_value_response lg1)))"


section \<open>create\_index.py\<close>

text \<open>The settings and mappings that \<open>create_index\<close> sends.\<close>

definition index_body :: "'f pyval" where
  "index_body =
     PDict [(lit ''settings'',
             PDict [(lit ''index'',
                     PDict [(lit ''number_of_shards'', PInt 3),
                            (lit ''number_of_replicas'', PInt 2),
                            (lit ''knn'', PBool True),
                            (lit ''knn.space_type'', PStr (lit ''cosinesimil''))])]),
            (lit ''mappings'',
             PDict [(lit ''properties'',
                     PDict [(lit ''text'',
                             PDict [(lit ''type'', PStr (lit ''text'')),
                                    (lit ''analyzer'', PStr (lit ''standard''))]),
                            (lit ''vector_field'',
                             PDict [(lit ''type'', PStr (lit ''knn_vector'')),
                                    (lit ''dimension'', PInt 1536)])])])]"

text \<open>
  \<open>indices_create\<close> stands for \<open>client.indices.create(index_name, body=...)\<close>; an
  exception is logged and raised again.
\<close>

definition create_index ::
  "(pystr \<Rightarrow> 'f pyval \<Rightarrow> exc + 'f pyval) \<Rightarrow> pystr \<Rightarrow> (exc + unit) \<times> 'f log_line list" where
  "create_index indices_create index_name =
     (case indices_create index_name index_body of
        Inl e \<Rightarrow> (Inl e, [(ERROR, [L ''Error creating index: '', E e])])
      | Inr response \<Rightarrow>
          (Inr (), [(INFO, [L (''Index '' @ [CHR 0x27]), S index_name,
                            L (CHR 0x27 # '' created successfully: ''), V response])]))"

section \<open>ask\_question.py\<close>

text \<open>
  What the query pipeline uses from outside. Creating a \<open>boto3\<close> client makes no request
  but can raise. The requests over the network are the endpoint lookup, those of Secrets
  Manager, the embedding model, the search of the index with a query vector, and the
  language model. \<open>main\<close> records the requests it causes, in order.
\<close>

record 'f query_services =
  sv_bedrock_client :: "pystr \<Rightarrow> exc + unit"
  sv_es_client :: "pystr \<Rightarrow> exc + 'f es_client"
  sv_secretsmanager :: "pystr \<Rightarrow> exc + 'f secrets_client"
  sv_json_loads :: "pystr \<Rightarrow> exc + 'f pyval"
  sv_embed_query :: "pystr \<Rightarrow> pystr \<Rightarrow> exc + 'f list"
  sv_knn_search :: "'f frag list \<Rightarrow> pystr \<times> 'f pyval \<Rightarrow> pystr \<Rightarrow> 'f list \<Rightarrow> exc + 'f pyval list"
  sv_invoke_model :: "pystr \<Rightarrow> 'f pyval list \<Rightarrow> pystr \<Rightarrow> exc + pystr"

datatype 'f request =
    DescribeDomain pystr pystr
  | ListSecrets pystr
  | GetSecretValue "'f pyval"
  | EmbedQuery pystr pystr
  | KnnSearch pystr "'f list"
  | InvokeModel pystr

text \<open>
  Modelled from the spec: \<open>retrieval_chain.invoke\<close> is LangChain's, outside the repository.
  It embeds the question with the embedding model, retrieves the nearest documents of the
  index for that vector, fills the prompt with them and the question, and invokes the
  language model; a failure of any step is raised to the caller. The vector goes from the
  embedding model to the search as it is.
\<close>

definition retrieval_chain_invoke ::
  "'f query_services \<Rightarrow> pystr \<Rightarrow> pystr \<Rightarrow> 'f frag list \<Rightarrow> pystr \<times> 'f pyval \<Rightarrow> pystr \<Rightarrow> pystr
     \<Rightarrow> (exc + 'f dict) \<times> 'f request list" where
  "retrieval_chain_invoke sv bedrock_model_id bedrock_embedding_model_id opensearch_url http_auth
       index_name question =
     (case sv_embed_query sv bedrock_embedding_model_id question of
        Inl e \<Rightarrow> (Inl e, [EmbedQuery bedrock_embedding_model_id question])
      | Inr vector \<Rightarrow>
     (case sv_knn_search sv opensearch_url http_auth index_name vector of
        Inl e \<Rightarrow>
          (Inl e, [EmbedQuery bedrock_embedding_model_id question, KnnSearch index_name vector])
      | Inr docs \<Rightarrow>
     (case sv_invoke_model sv bedrock_model_id docs question of
        Inl e \<Rightarrow>
          (Inl e, [EmbedQuery bedrock_embedding_model_id question, KnnSearch index_name vector,
                   InvokeModel bedrock_model_id])
      | Inr answer \<Rightarrow>
          (Inr [(lit ''input'', PStr question), (lit ''context'', PList docs),
                (lit ''answer'', PStr answer)],
           [EmbedQuery bedrock_embedding_model_id question, KnnSearch index_name vector,
            InvokeModel bedrock_model_id]))))"

text \<open>
  The requests of \<open>get_secret\<close>: none when the client cannot be created, else
  \<open>list_secrets\<close>, and \<open>get_secret_value\<close> once a name (or \<open>None\<close>) has come back
  from \<open>get_secret_name\<close>.
\<close>

definition get_secret_requests :: "(pystr \<Rightarrow> exc + 'f secrets_client) \<Rightarrow> 'f request list" where
  "get_secret_requests boto3_client =
     (case boto3_client (lit ''eu-central-1'') of
        Inl e \<Rightarrow> []
      | Inr client \<Rightarrow>
          ListSecrets (lit ''eu-central-1'') #
          (case fst (get_secret_name boto3_client (lit ''eu-central-1'') (lit ''rag'')) of
             Inl e \<Rightarrow> []
           | Inr secret_name \<Rightarrow> [GetSecretValue secret_name]))"

text \<open>
  \<open>main\<close>. The Bedrock client is created first. Building the LangChain objects, the
  prompt and the chain makes no request. The endpoint and the secret are looked up before
  the chain runs: \<open>get_opensearch_endpoint\<close> is the one of \<open>retrieve_endpoint.py\<close>, which
  asks for the domain once its client is created and returns \<open>None\<close> when the lookup
  fails; \<open>get_secret\<close> may raise. Nothing in \<open>main\<close> catches an exception.
\<close>

definition main ::
  "('f::zero) query_services \<Rightarrow> (exc + unit) \<times> 'f log_line list \<times> 'f request list" where
  "main sv =
     (let bedrock_model_id = lit ''amazon.titan-text-lite-v1'';
          bedrock_embedding_model_id = lit ''amazon.titan-embed-text-v1'';
          region = lit ''eu-central-1'';
          index_name = lit ''rag'';
          domain_name = lit ''rag'';
          question = lit '' Can you describe the React approach?'';
          lg0 = [(INFO, [L ''Starting the LangChain with Bedrock and OpenSearch workflow...'']),
                 (INFO, [L ''Creating Bedrock client with model '', S bedrock_model_id,
                         L '', and embeddings with '', S bedrock_embedding_model_id])] in
      case sv_bedrock_client sv region of
        Inl e \<Rightarrow> (Inl e, lg0, [])
      | Inr bedrock_client \<Rightarrow>
     (let lg1 = lg0 @
            [(INFO, [L ''Creating Bedrock LLM with model: '', S bedrock_model_id]),
             (INFO, [L ''Creating LangChain vector embedding using Bedrock model: '',
                     S bedrock_embedding_model_id])] in
      case get_opensearch_endpoint (sv_es_client sv) domain_name region of
        (Inl e, out) \<Rightarrow> (Inl e, lg1, [])
      | (Inr host, out) \<Rightarrow>
     (let rq1 = DescribeDomain region domain_name # get_secret_requests (sv_secretsmanager sv) in
      case get_secret (sv_secretsmanager sv) (sv_json_loads sv) of
        (Inl e, lg) \<Rightarrow> (Inl e, lg1 @ lg, rq1)
      | (Inr password, lg) \<Rightarrow>
          (let lg2 = lg1 @ lg @
                 [(INFO, [L ''Creating OpenSearch vector search client for index: '', S index_name])];
               opensearch_url = [L ''https://'', V host] in
           case retrieval_chain_invoke sv bedrock_model_id bedrock_embedding_model_id
                  opensearch_url (index_name, password) index_name question of
             (Inl e, rq) \<Rightarrow> (Inl e, lg2, rq1 @ rq)
           | (Inr response, rq) \<Rightarrow>
               (Inr (),
                lg2 @ [(INFO, [L ''The answer from Bedrock '', S bedrock_model_id, L '' is: '',
                               V (py_get response (lit ''answer''))])],
                rq1 @ rq)))))"

section \<open>The intermediate file\<close>

text \<open>
  \<open>generate_embeddings.py\<close> writes the pages with
  \<open>open(output_file, "w", encoding="utf-8")\<close> and
  \<open>json.dump(..., ensure_ascii=False, indent=2)\<close>;
  \<open>ingest_docs_with_embeddings.py\<close> reads them with \<open>open(..., 'r')\<close> and
  \<open>json.load\<close>. A file opened without \<open>encoding\<close> is decoded with the preferred
  encoding of the platform. A file is a list of bytes; \<open>json.dump\<close> and \<open>json.load\<close>
  are parameters, from a value to the text written and from the text read to a value.
\<close>

type_synonym byte = nat

text \<open>The UTF-8 encoding of one code point and of a text; a surrogate cannot be encoded.\<close>

fun utf8_char :: "nat \<Rightarrow> exc + byte list" where
  "utf8_char c =
     (if c < 128 then Inr [c]
      else if c < 2048 then Inr [192 + c div 64, 128 + c mod 64]
      else if 55296 \<le> c \<and> c \<le> 57343
        then Inl (Exc UnicodeEncodeError (lit ''surrogates not allowed''))
      else if c < 65536
        then Inr [224 + c div 4096, 128 + (c div 64) mod 64, 128 + c mod 64]
      else if c < 1114112
        then Inr [240 + c div 262144, 128 + (c div 4096) mod 64, 128 + (c div 64) mod 64,
                  128 + c mod 64]
      else Inl (Exc UnicodeEncodeError (lit ''not a code point'')))"

fun utf8_encode :: "pystr \<Rightarrow> exc + byte list" where
  "utf8_encode [] = Inr []"
| "utf8_encode (c # s) =
     (case utf8_char c of
        Inl e \<Rightarrow> Inl e
      | Inr bs \<Rightarrow> (case utf8_encode s of Inl e \<Rightarrow> Inl e | Inr rest \<Rightarrow> Inr (bs @ rest)))"

text \<open>
  Windows code page 1252, the preferred encoding of a Western European Windows: one
  character per byte, bytes 128 to 159 by a table in which five bytes are undefined.
\<close>

definition cp1252_high :: "nat option list" where
  "cp1252_high =
     [Some 8364, None, Some 8218, Some 402, Some 8222, Some 8230, Some 8224, Some 8225,
      Some 710, Some 8240, Some 352, Some 8249, Some 338, None, Some 381, None,
      None, Some 8216, Some 8217, Some 8220, Some 8221, Some 8226, Some 8211, Some 8212,
      Some 732, Some 8482, Some 353, Some 8250, Some 339, None, Some 382, Some 376]"

definition cp1252_char :: "byte \<Rightarrow> exc + nat" where
  "cp1252_char b =
     (if 128 \<le> b \<and> b < 160
      then (case cp1252_high ! (b - 128) of
              None \<Rightarrow> Inl (Exc UnicodeDecodeError (lit ''character maps to <undefined>''))
            | Some c \<Rightarrow> Inr c)
      else Inr b)"

fun cp1252_decode :: "byte list \<Rightarrow> exc + pystr" where
  "cp1252_decode [] = Inr []"
| "cp1252_decode (b # bs) =
     (case cp1252_char b of
        Inl e \<Rightarrow> Inl e
      | Inr c \<Rightarrow> (case cp1252_decode bs of Inl e \<Rightarrow> Inl e | Inr s \<Rightarrow> Inr (c # s)))"

text \<open>The UTF-8 decoding of a file: a decoder of one character, applied until the end.\<close>

definition utf8_cont :: "byte \<Rightarrow> bool" where
  "utf8_cont b \<longleftrightarrow> 128 \<le> b \<and> b < 192"

definition utf8_bad :: "exc + 'a" where
  "utf8_bad = Inl (Exc UnicodeDecodeError (lit ''invalid utf-8''))"

fun utf8_head :: "byte list \<Rightarrow> exc + nat \<times> byte list" where
  "utf8_head [] = utf8_bad"
| "utf8_head (b # bs) =
     (if b < 128 then Inr (b, bs)
      else if 194 \<le> b \<and> b < 224 then
        (case bs of
           b1 # rest \<Rightarrow>
             if utf8_cont b1 then Inr ((b - 192) * 64 + (b1 - 128), rest) else utf8_bad
         | _ \<Rightarrow> utf8_bad)
      else if 224 \<le> b \<and> b < 240 then
        (case bs of
           b1 # b2 # rest \<Rightarrow>
             (let c = (b - 224) * 4096 + (b1 - 128) * 64 + (b2 - 128) in
              if utf8_cont b1 \<and> utf8_cont b2 \<and> 2048 \<le> c \<and> \<not> (55296 \<le> c \<and> c \<le> 57343)
              then Inr (c, rest) else utf8_bad)
         | _ \<Rightarrow> utf8_bad)
      else if 240 \<le> b \<and> b < 245 then
        (case bs of
           b1 # b2 # b3 # rest \<Rightarrow>
             (let c = (b - 240) * 262144 + (b1 - 128) * 4096 + (b2 - 128) * 64 + (b3 - 128) in
              if utf8_cont b1 \<and> utf8_cont b2 \<and> utf8_cont b3 \<and> 65536 \<le> c \<and> c < 1114112
              then Inr (c, rest) else utf8_bad)
         | _ \<Rightarrow> utf8_bad)
      else utf8_bad)"

function utf8_decode :: "byte list \<Rightarrow> exc + pystr" where
  "utf8_decode bs =
     (if bs = [] then Inr []
      else case utf8_head bs of
             Inl e \<Rightarrow> Inl e
           | Inr (c, rest) \<Rightarrow>
               (case utf8_decode rest of Inl e \<Rightarrow> Inl e | Inr s \<Rightarrow> Inr (c # s)))"
  by pat_completeness auto
termination
proof (relation "measure length")
  show "wf (measure length)" by simp
next
  fix bs :: "byte list" and x c rest
  assume "bs \<noteq> []" and "utf8_head bs = Inr x" and "(c, rest) = x"
  then show "(rest, bs) \<in> measure length"
    by (cases bs) (auto simp: utf8_bad_def Let_def split: if_splits list.splits)
qed


datatype encoding = UTF8 | CP1252

definition decode_text :: "encoding \<Rightarrow> byte list \<Rightarrow> exc + pystr" where
  "decode_text enc file = (case enc of UTF8 \<Rightarrow> utf8_decode file | CP1252 \<Rightarrow> cp1252_decode file)"

text \<open>The writer, the reader, and one after the other.\<close>

definition save_pages :: "('f pyval \<Rightarrow> exc + pystr) \<Rightarrow> 'f pyval \<Rightarrow> exc + byte list" where
  "save_pages json_dump pages_with_embeddings =
     (case json_dump pages_with_embeddings of
        Inl e \<Rightarrow> Inl e
      | Inr txt \<Rightarrow> utf8_encode txt)"

definition load_pages ::
  "encoding \<Rightarrow> (pystr \<Rightarrow> exc + 'f pyval) \<Rightarrow> byte list \<Rightarrow> exc + 'f pyval" where
  "load_pages preferred_encoding json_load file =
     (case decode_text preferred_encoding file of
        Inl e \<Rightarrow> Inl e
      | Inr txt \<Rightarrow> json_load txt)"

definition file_round_trip ::
  "('f pyval \<Rightarrow> exc + pystr) \<Rightarrow> encoding \<Rightarrow> (pystr \<Rightarrow> exc + 'f pyval) \<Rightarrow> 'f pyval
     \<Rightarrow> exc + 'f pyval" where
  "file_round_trip json_dump preferred_encoding json_load pages =
     (case save_pages json_dump pages of
        Inl e \<Rightarrow> Inl e
      | Inr file \<Rightarrow> load_pages preferred_encoding json_load file)"

section \<open>Example inputs\<close>

text \<open>
  Two pages in the store, an embedding client whose call fails on the text of the first
  page, and an empty index.
\<close>

definition example_heap :: "addr \<Rightarrow> real dict" where
  "example_heap a =
     (if a = 0 then [(lit ''page_number'', PInt 1), (lit ''text'', PStr (lit ''broken''))]
      else [(lit ''page_number'', PInt 2), (lit ''text'', PStr (lit ''React''))])"

definition flaky_bedrock :: "(unit, real) bedrock_client" where
  "flaky_bedrock model_id s t =
     (if t = PStr (lit ''broken'')
      then (Inl (Exc (OtherError ''ReadTimeoutError'') (lit ''Read timed out'')), s)
      else (Inr [1, 2, 3], s))"

definition example_world :: "(unit, real) embed_world" where
  "example_world = \<lparr>heap = example_heap, bedrock = (), embed_calls = [], embed_log = []\<rparr>"


text \<open>
  A cluster with three indices, on which deleting \<open>rag\<close> is refused.
\<close>

definition example_cluster :: "(pystr list, real) indices_client" where
  "example_cluster =
     \<lparr>get_alias = (\<lambda>s. (Inr (PDict (map (\<lambda>n. (n, PDict [(lit ''aliases'', PDict [])])) s)), s)),
      indices_delete = (\<lambda>s n.
        if n = lit ''rag''
        then (Inl (Exc (OtherError ''AuthorizationException'') (lit ''no permissions'')), s)
        else (Inr (PDict [(lit ''acknowledged'', PBool True)]), remove1 n s))\<rparr>"

definition example_indices :: "(pystr list, real) delete_world" where
  "example_indices =
     \<lparr>cluster = [lit ''.kibana'', lit ''rag'', lit ''rag-test''], delete_calls = [],
      delete_log = []\<rparr>"

text \<open>
  Three JSON secrets of equal length with the same keys, what \<open>json.loads\<close> returns on
  them and on a secret of digits (and \<open>JSONDecodeError\<close> on the other texts used
  here), and a Secrets Manager, in every region, that holds a given secret under a name
  matching the domain.
\<close>

definition secret_a :: pystr where
  \<open>secret_a = lit ''{"user":"ab","pass":"c"}''\<close>

definition secret_b :: pystr where
  \<open>secret_b = lit ''{"user":"a","pass":"bc"}''\<close>

definition secret_c :: pystr where
  \<open>secret_c = lit ''{"user":"xy","pass":"z"}''\<close>

definition example_json_loads :: "pystr \<Rightarrow> exc + real pyval" where
  "example_json_loads s =
     (if s = secret_a
      then Inr (PDict [(lit ''user'', PStr (lit ''ab'')), (lit ''pass'', PStr (lit ''c''))])
      else if s = secret_b
      then Inr (PDict [(lit ''user'', PStr (lit ''a'')), (lit ''pass'', PStr (lit ''bc''))])
      else if s = secret_c
      then Inr (PDict [(lit ''user'', PStr (lit ''xy'')), (lit ''pass'', PStr (lit ''z''))])
      else if s = lit ''1234567'' then Inr (PInt 1234567)
      else Inl (Exc JSONDecodeError (lit ''Expecting value'')))"

definition secrets_holding :: "pystr \<Rightarrow> pystr \<Rightarrow> exc + real secrets_client" where
  "secrets_holding s region =
     Inr \<lparr>list_secrets = Inr (PDict [(lit ''SecretList'',
                         PList [PDict [(lit ''Name'', PStr (lit ''rag-master-password''))]])]),
          get_secret_value = (\<lambda>name. Inr (PDict [(lit ''SecretString'', PStr s)]))\<rparr>"

text \<open>
  Services for the query pipeline: the embedding model returns a vector of dimension 3,
  and the index rejects every query vector whose dimension is not 1536.
\<close>

definition example_services :: "real query_services" where
  "example_services =
     \<lparr>sv_bedrock_client = (\<lambda>region. Inr ()),
      sv_es_client = (\<lambda>region. Inr (\<lambda>domain_name.
        Inr (PDict [(lit ''DomainStatus'',
               PDict [(lit ''Endpoint'', PStr (lit ''search-rag.eu-central-1.es.amazonaws.com''))])]))),
      sv_secretsmanager = secrets_holding (lit ''hunter2''),
      sv_json_loads = example_json_loads,
      sv_embed_query = (\<lambda>model_id question. Inr [0.1, 0.2, 0.3]),
      sv_knn_search = (\<lambda>url auth index_name vector.
        if length vector = 1536 then Inr []
        else Inl (Exc (OtherError ''RequestError'') (lit ''Query vector has invalid dimension''))),
      sv_invoke_model = (\<lambda>model_id docs question. Inr (lit ''I do not know.''))\<rparr>"

text \<open>
  One page whose text is \<open>t\<close>, the text of the file that \<open>json.dump\<close> writes for it
  when \<open>t\<close> needs no escape, and \<open>json.dump\<close> and \<open>json.load\<close> on the values and
  texts used here: the page with the text \<open>U+00E9\<close>, and the text read back.
\<close>

definition page_list :: "pystr \<Rightarrow> real pyval" where
  "page_list t =
     PList [PDict [(lit ''page_number'', PInt 1), (lit ''text'', PStr t),
                   (lit ''vector_field'', PList [PFloat 0.5])]]"

definition page_file_text :: "pystr \<Rightarrow> pystr" where
  \<open>page_file_text t =
     lit ''['' @ [10] @
     lit ''  {'' @ [10] @
     lit ''    "page_number": 1,'' @ [10] @
     lit ''    "text": "'' @ t @ lit ''",'' @ [10] @
     lit ''    "vector_field": ['' @ [10] @
     lit ''      0.5'' @ [10] @
     lit ''    ]'' @ [10] @
     lit ''  }'' @ [10] @
     lit '']''\<close>

definition example_json_dump :: "real pyval \<Rightarrow> exc + pystr" where
  "example_json_dump v =
     (if v = page_list [233] then Inr (page_file_text [233])
      else Inl (Exc TypeError (lit ''not in the table'')))"

definition example_json_load :: "pystr \<Rightarrow> exc + real pyval" where
  "example_json_load txt =
     (if txt = page_file_text [233] then Inr (page_list [233])
      else if txt = page_file_text [195, 169] then Inr (page_list [195, 169])
      else Inl (Exc JSONDecodeError (lit ''not in the table'')))"

section \<open>Properties\<close>

subsection \<open>Basic facts\<close>

lemma lit_eq_iff: "lit a = lit b \<longleftrightarrow> a = b"
  unfolding lit_def by (simp add: inj_on_def)

subsection \<open>Text extraction\<close>

lemma py_strip_decomp:
  "\<exists>pre suf. t = pre @ py_strip t @ suf \<and> (\<forall>c\<in>set pre. py_isspace c) \<and> (\<forall>c\<in>set suf. py_isspace c)"
proof -
  let ?a = "takeWhile py_isspace t"
  let ?m = "dropWhile py_isspace t"
  let ?b = "rev (takeWhile py_isspace (rev ?m))"
  have m: "?m = py_strip t @ ?b"
  proof -
    have "rev (dropWhile py_isspace (rev ?m)) @ rev (takeWhile py_isspace (rev ?m))
            = rev (takeWhile py_isspace (rev ?m) @ dropWhile py_isspace (rev ?m))"
      by (simp only: rev_append)
    also have "\<dots> = ?m" by simp
    finally show ?thesis by (simp only: py_strip_def)
  qed
  have "t = ?a @ ?m" by simp
  with m have "t = ?a @ py_strip t @ ?b" by simp
  moreover have "\<forall>c\<in>set ?a. py_isspace c" by (auto dest: set_takeWhileD)
  moreover have "\<forall>c\<in>set ?b. py_isspace c" by (auto dest: set_takeWhileD)
  ultimately show ?thesis by blast
qed

lemma py_strip_ends:
  "py_strip t \<noteq> [] \<Longrightarrow> \<not> py_isspace (hd (py_strip t)) \<and> \<not> py_isspace (last (py_strip t))"
proof -
  assume ne: "py_strip t \<noteq> []"
  let ?m = "dropWhile py_isspace t"
  let ?r = "dropWhile py_isspace (rev ?m)"
  have r: "?r \<noteq> []" using ne by (simp add: py_strip_def)
  have l: "\<not> py_isspace (hd ?r)" using r by (rule hd_dropWhile)
  have last: "last (py_strip t) = hd ?r" using r by (simp add: py_strip_def last_rev)
  have "rev ?m \<noteq> []" using r by (metis dropWhile.simps(1))
  then have mne: "?m \<noteq> []" by simp
  have hm: "\<not> py_isspace (hd ?m)" using mne by (rule hd_dropWhile)
  obtain b where b: "?m = py_strip t @ b"
    using py_strip_decomp[of t]
    by (metis append_eq_conv_conj py_strip_def rev_rev_ident takeWhile_dropWhile_id rev_append)
  have "hd (py_strip t) = hd ?m" using b ne by (metis hd_append2)
  with hm l last show ?thesis by simp
qed

lemma extract_pages_ok:
  "extract_pages n (map Inr texts) (pages, lg) = (Inr ps, lg') \<Longrightarrow>
   ps = pages @ map (\<lambda>(i, t). [(lit ''page_number'', PInt (int i + 1)), (lit ''text'', PStr (py_strip t))])
          (enumerate n texts)"
proof (induction texts arbitrary: n pages lg)
  case Nil then show ?case by simp
next
  case (Cons t ts)
  from Cons.prems have
    "extract_pages (n + 1) (map Inr ts)
      (pages @ [[(lit ''page_number'', PInt (int n + 1)), (lit ''text'', PStr (py_strip t))]],
       lg @ [(DEBUG, [L ''Extracted text from page '', V (PInt (int n + 1)),
                             L '': '', S (take 100 t), L ''...''])]) = (Inr ps, lg')"
    by simp
  from Cons.IH[OF this] show ?case
    by simp
qed

lemma extract_pages_total:
  "\<exists>ps lg'. extract_pages n (map Inr texts) (pages, lg) = (Inr ps, lg')"
  by (induction texts arbitrary: n pages lg) auto


text \<open>
  Claim C4. When the PDF opens and each of its \<open>N\<close> pages yields its text,
  \<open>extract_text_from_pdf\<close> returns exactly \<open>N\<close> page records in document order.
  Record \<open>i\<close> (counted from 0) holds \<open>page_number = i + 1\<close> and the text of page
  \<open>i\<close> without its leading and trailing whitespace, and has no \<open>vector_field\<close> key.
\<close>

theorem extract_text_from_pdf_pages:
  assumes opened: "fitz_open pdf_path = Inr (map Inr texts)"
  shows "\<exists>pages :: 'f dict list.
           fst (extract_text_from_pdf fitz_open pdf_path) = Inr pages
         \<and> length pages = length texts
         \<and> (\<forall>i<length texts.
               pages ! i = [(lit ''page_number'', PInt (int i + 1)),
                            (lit ''text'', PStr (py_strip (texts ! i)))]
             \<and> py_getitem (pages ! i) (lit ''page_number'') = Inr (PInt (int i + 1))
             \<and> py_getitem (pages ! i) (lit ''text'') = Inr (PStr (py_strip (texts ! i)))
             \<and> \<not> py_haskey (pages ! i) (lit ''vector_field'')
             \<and> (\<exists>pre suf. texts ! i = pre @ py_strip (texts ! i) @ suf
                    \<and> (\<forall>c\<in>set pre. py_isspace c) \<and> (\<forall>c\<in>set suf. py_isspace c))
             \<and> (py_strip (texts ! i) = []
                  \<or> \<not> py_isspace (hd (py_strip (texts ! i)))
                    \<and> \<not> py_isspace (last (py_strip (texts ! i)))))"
proof -
  let ?lg = "[(INFO, [L ''Opening PDF file: '', S pdf_path]),
              (INFO, [L ''PDF file opened successfully.'']),
              (INFO, [L ''Extracting text from '', V (PInt (int (length texts))), L '' pages.''])]
             :: 'f log_line list"
  obtain ps :: "'f dict list" and lg' where run: "extract_pages 0 (map Inr texts) ([], ?lg) = (Inr ps, lg')"
    using extract_pages_total by blast
  from extract_pages_ok[OF run]
  have ps: "ps = map (\<lambda>(i, t). [(lit ''page_number'', PInt (int i + 1)),
                                   (lit ''text'', PStr (py_strip t))]) (enumerate 0 texts)"
    by simp
  have res: "fst (extract_text_from_pdf fitz_open pdf_path) = Inr ps"
    using opened run by (simp add: extract_text_from_pdf_def)
  have len: "length ps = length texts" by (simp add: ps)
  have nth: "ps ! i = [(lit ''page_number'', PInt (int i + 1)),
                       (lit ''text'', PStr (py_strip (texts ! i)))]" if "i < length texts" for i
    using that by (simp add: ps nth_enumerate_eq)
  have keys: "lit ''page_number'' \<noteq> lit ''text''" "lit ''vector_field'' \<noteq> lit ''page_number''"
             "lit ''vector_field'' \<noteq> lit ''text''"
    by (simp_all add: lit_eq_iff)
  show ?thesis
  proof (intro exI[of _ ps] conjI allI impI)
    show "fst (extract_text_from_pdf fitz_open pdf_path) = Inr ps" by (rule res)
    show "length ps = length texts" by (rule len)
  next
    fix i assume i: "i < length texts"
    show "ps ! i = [(lit ''page_number'', PInt (int i + 1)),
                    (lit ''text'', PStr (py_strip (texts ! i)))]" by (rule nth[OF i])
    show "py_getitem (ps ! i) (lit ''page_number'') = Inr (PInt (int i + 1))"
      by (simp add: nth[OF i] py_getitem_def)
    show "py_getitem (ps ! i) (lit ''text'') = Inr (PStr (py_strip (texts ! i)))"
      using keys by (simp add: nth[OF i] py_getitem_def)
    show "\<not> py_haskey (ps ! i) (lit ''vector_field'')"
      using keys by (simp add: nth[OF i] py_haskey_def)
    show "\<exists>pre suf. texts ! i = pre @ py_strip (texts ! i) @ suf
             \<and> (\<forall>c\<in>set pre. py_isspace c) \<and> (\<forall>c\<in>set suf. py_isspace c)"
      by (rule py_strip_decomp)
    show "py_strip (texts ! i) = []
            \<or> \<not> py_isspace (hd (py_strip (texts ! i)))
              \<and> \<not> py_isspace (last (py_strip (texts ! i)))"
      using py_strip_ends[of "texts ! i"] by blast
  qed
qed

lemma py_strip_example: "py_strip (lit ''  Hello world '') = lit ''Hello world''"
  by (simp add: py_strip_def lit_def py_isspace_def)

theorem extract_text_from_pdf_pages_witness:
  "fst (extract_text_from_pdf (\<lambda>p. Inr [Inr (lit ''  Hello world ''), Inr (lit ''React'')])
         (lit ''document.pdf'') :: (exc + real dict list) \<times> real log_line list)
   = Inr [[(lit ''page_number'', PInt 1), (lit ''text'', PStr (lit ''Hello world''))],
          [(lit ''page_number'', PInt 2), (lit ''text'', PStr (lit ''React''))]]"
proof -
  let ?texts = "[lit ''  Hello world '', lit ''React'']"
  from extract_text_from_pdf_pages[where fitz_open = "\<lambda>p. Inr (map Inr ?texts)"
         and pdf_path = "lit ''document.pdf''" and texts = ?texts and 'f = real, OF refl]
  obtain pages :: "real dict list" where
    r: "fst (extract_text_from_pdf (\<lambda>p. Inr (map Inr ?texts)) (lit ''document.pdf'')) = Inr pages"
    and l: "length pages = length ?texts"
    and n: "\<And>i. i < length ?texts \<Longrightarrow>
               pages ! i = [(lit ''page_number'', PInt (int i + 1)),
                            (lit ''text'', PStr (py_strip (?texts ! i)))]"
    by blast
  have p0: "pages ! 0 = [(lit ''page_number'', PInt 1), (lit ''text'', PStr (lit ''Hello world''))]"
    using n[of 0] by (simp add: py_strip_example)
  have "py_strip (lit ''React'') = lit ''React''"
    by (simp add: py_strip_def lit_def py_isspace_def)
  then have p1: "pages ! 1 = [(lit ''page_number'', PInt 2), (lit ''text'', PStr (lit ''React''))]"
    using n[of 1] by simp
  have "pages = [pages ! 0, pages ! 1]"
    using l by (cases pages; cases "tl pages") auto
  with p0 p1 r show ?thesis by simp
qed

subsection \<open>Ingestion\<close>

lemma ingest_page_dict:
  fixes w :: "('s, 'f) ingest_world" and d :: "'f dict" and index_name :: pystr
  defines "request \<equiv> \<lparr>req_index = index_name,
                      req_body = [(lit ''text'', py_get d (lit ''text'')),
                                  (lit ''vector_field'', py_get d (lit ''vector_field''))],
                      req_id = None\<rparr>"
  shows "\<exists>w'. ingest_page client index_name (PDict d) w = (Inr (), w')
     \<and> index_calls w' = index_calls w @ [(request, fst (client (engine w) request))]
     \<and> engine w' = snd (client (engine w) request)"
  unfolding request_def
  by (cases "client (engine w)
                   \<lparr>req_index = index_name,
                    req_body = [(lit ''text'', py_get d (lit ''text'')),
                                (lit ''vector_field'', py_get d (lit ''vector_field''))],
                    req_id = None\<rparr>")
     (auto simp: ingest_page_def index_failed_def ingest_info_def Let_def
           split: sum.splits prod.splits)

lemma ingest_pages_dicts:
  fixes w :: "('s, 'f) ingest_world"
  shows "\<exists>w'. ingest_pages client index_name (map PDict pages) w = (Inr (), w')
     \<and> map fst (index_calls w') = map fst (index_calls w) @
          map (\<lambda>page. \<lparr>req_index = index_name,
                         req_body = [(lit ''text'', py_get page (lit ''text'')),
                                     (lit ''vector_field'', py_get page (lit ''vector_field''))],
                         req_id = None\<rparr>) pages"
proof (induction pages arbitrary: w)
  case Nil
  then show ?case by simp
next
  case (Cons d pages)
  obtain w1 where s: "ingest_page client index_name (PDict d) w = (Inr (), w1)"
    and c: "map fst (index_calls w1) = map fst (index_calls w) @
             [\<lparr>req_index = index_name,
               req_body = [(lit ''text'', py_get d (lit ''text'')),
                           (lit ''vector_field'', py_get d (lit ''vector_field''))],
               req_id = None\<rparr>]"
    using ingest_page_dict[of client index_name d w] by auto
  from Cons.IH[of w1] s c show ?case by auto
qed

lemma ingest_pages_append_only:
  fixes w :: "('f stored_docs, 'f) ingest_world"
  shows "\<exists>w'. ingest_pages append_only_index index_name (map PDict pages) w = (Inr (), w')
     \<and> map snd (engine w') = map snd (engine w) @
          map (\<lambda>page. [(lit ''text'', py_get page (lit ''text'')),
                        (lit ''vector_field'', py_get page (lit ''vector_field''))]) pages"
proof (induction pages arbitrary: w)
  case Nil
  then show ?case by simp
next
  case (Cons d pages)
  obtain w1 where s: "ingest_page append_only_index index_name (PDict d) w = (Inr (), w1)"
    and c: "map snd (engine w1) = map snd (engine w) @
             [[(lit ''text'', py_get d (lit ''text'')),
               (lit ''vector_field'', py_get d (lit ''vector_field''))]]"
    using ingest_page_dict[of append_only_index index_name d w]
    by (auto simp: append_only_index_def)
  from Cons.IH[of w1] s c show ?case by auto
qed


lemma replay_Cons:
  "replay service s (r # rs) =
     ((r, fst (service s r)) # fst (replay service (snd (service s r)) rs),
      snd (replay service (snd (service s r)) rs))"
  by (simp split: prod.splits)

lemma replay_requests: "map fst (fst (replay service s rs)) = rs"
  by (induction rs arbitrary: s) (simp_all add: replay_Cons del: replay.simps(2))

lemma ingest_pages_replay:
  fixes w :: "('s, 'f) ingest_world"
  shows "\<exists>w'. ingest_pages client index_name (map PDict pages) w = (Inr (), w')
     \<and> index_calls w' = index_calls w @
          fst (replay client (engine w)
                 (map (\<lambda>page. \<lparr>req_index = index_name,
                         req_body = [(lit ''text'', py_get page (lit ''text'')),
                                     (lit ''vector_field'', py_get page (lit ''vector_field''))],
                         req_id = None\<rparr>) pages))
     \<and> engine w' =
          snd (replay client (engine w)
                 (map (\<lambda>page. \<lparr>req_index = index_name,
                         req_body = [(lit ''text'', py_get page (lit ''text'')),
                                     (lit ''vector_field'', py_get page (lit ''vector_field''))],
                         req_id = None\<rparr>) pages))"
proof (induction pages arbitrary: w)
  case Nil
  then show ?case by simp
next
  case (Cons d pages)
  let ?rq = "\<lambda>page. \<lparr>req_index = index_name,
                         req_body = [(lit ''text'', py_get page (lit ''text'')),
                                     (lit ''vector_field'', py_get page (lit ''vector_field''))],
                         req_id = None\<rparr>"
  obtain w1 where s: "ingest_page client index_name (PDict d) w = (Inr (), w1)"
    and c: "index_calls w1 = index_calls w @ [(?rq d, fst (client (engine w) (?rq d)))]"
    and e: "engine w1 = snd (client (engine w) (?rq d))"
    using ingest_page_dict[of client index_name d w] by auto
  from Cons.IH[of w1] obtain w' where
    r: "ingest_pages client index_name (map PDict pages) w1 = (Inr (), w')"
    and c': "index_calls w' = index_calls w1 @ fst (replay client (engine w1) (map ?rq pages))"
    and e': "engine w' = snd (replay client (engine w1) (map ?rq pages))"
    by blast
  have "ingest_pages client index_name (map PDict (d # pages)) w = (Inr (), w')"
    using s r by simp
  moreover have "index_calls w' = index_calls w @
          fst (replay client (engine w) (map ?rq (d # pages)))"
    unfolding c' c e by (simp add: replay_Cons del: replay.simps(2))
  moreover have "engine w' = snd (replay client (engine w) (map ?rq (d # pages)))"
    unfolding e' e by (simp add: replay_Cons del: replay.simps(2))
  ultimately show ?case by blast
qed

text \<open>
  Claim C5. For every list of page dictionaries and every client, \<open>ingest_data\<close> sends
  the client one request per page, in order, and nothing else: the calls recorded and the
  state of the engine are those of sending these requests one after the other. The body of
  each request is the dictionary with exactly the keys \<open>text\<close> and \<open>vector_field\<close>,
  holding \<open>page.get('text')\<close> and \<open>page.get('vector_field')\<close>. No body has a
  \<open>page_number\<close> key.
\<close>

theorem ingest_data_document_body:
  fixes w :: "('s, 'f) ingest_world"
  shows "\<exists>w'. ingest_data client index_name (PList (map PDict pages)) w = (Inr (), w')
     \<and> index_calls w' = index_calls w @
          fst (replay client (engine w)
                 (map (\<lambda>page. \<lparr>req_index = index_name,
                         req_body = [(lit ''text'', py_get page (lit ''text'')),
                                     (lit ''vector_field'', py_get page (lit ''vector_field''))],
                         req_id = None\<rparr>) pages))
     \<and> engine w' =
          snd (replay client (engine w)
                 (map (\<lambda>page. \<lparr>req_index = index_name,
                         req_body = [(lit ''text'', py_get page (lit ''text'')),
                                     (lit ''vector_field'', py_get page (lit ''vector_field''))],
                         req_id = None\<rparr>) pages))
     \<and> map (req_body \<circ> fst) (index_calls w') =
         map (req_body \<circ> fst) (index_calls w) @
         map (\<lambda>page. [(lit ''text'', py_get page (lit ''text'')),
                       (lit ''vector_field'', py_get page (lit ''vector_field''))]) pages
     \<and> (\<forall>c \<in> set (drop (length (index_calls w)) (index_calls w')).
           py_keys (req_body (fst c)) = [lit ''text'', lit ''vector_field'']
         \<and> \<not> py_haskey (req_body (fst c)) (lit ''page_number''))"
proof -
  let ?rq = "\<lambda>page. \<lparr>req_index = index_name,
                         req_body = [(lit ''text'', py_get page (lit ''text'')),
                                     (lit ''vector_field'', py_get page (lit ''vector_field''))],
                         req_id = None\<rparr>"
  obtain w' where run: "ingest_pages client index_name (map PDict pages) w = (Inr (), w')"
    and sent: "index_calls w' = index_calls w @ fst (replay client (engine w) (map ?rq pages))"
    and left: "engine w' = snd (replay client (engine w) (map ?rq pages))"
    using ingest_pages_replay[of client index_name pages w] by blast
  have calls: "map fst (index_calls w') = map fst (index_calls w) @ map ?rq pages"
    unfolding sent by (simp add: replay_requests)
  have res: "ingest_data client index_name (PList (map PDict pages)) w = (Inr (), w')"
    using run by (simp add: ingest_data_def)
  have "map req_body (map fst (index_calls w')) =
          map req_body (map fst (index_calls w) @ map ?rq pages)"
    by (simp only: calls)
  then have bodies: "map (req_body \<circ> fst) (index_calls w') =
         map (req_body \<circ> fst) (index_calls w) @
         map (\<lambda>page. [(lit ''text'', py_get page (lit ''text'')),
                       (lit ''vector_field'', py_get page (lit ''vector_field''))]) pages"
    by (simp add: comp_def)
  have "drop (length (index_calls w)) (map fst (index_calls w')) = map ?rq pages"
    by (simp add: calls)
  then have new: "map fst (drop (length (index_calls w)) (index_calls w')) = map ?rq pages"
    by (simp add: drop_map)
  have keys: "py_keys (req_body (fst c)) = [lit ''text'', lit ''vector_field'']
         \<and> \<not> py_haskey (req_body (fst c)) (lit ''page_number'')"
    if "c \<in> set (drop (length (index_calls w)) (index_calls w'))" for c
  proof -
    from that have "fst c \<in> set (map fst (drop (length (index_calls w)) (index_calls w')))"
      by simp
    with new obtain page where "fst c = ?rq page" by auto
    then show ?thesis by (simp add: py_keys_def py_haskey_def lit_eq_iff)
  qed
  from res sent left bodies keys show ?thesis by blast
qed

theorem ingest_data_document_body_witness:
  "engine (snd (ingest_data append_only_index (lit ''rag'')
        (PList (map PDict [[(lit ''page_number'', PInt 1), (lit ''text'', PStr (lit ''Hello'')),
                            (lit ''vector_field'', PList [PFloat (1::real), PFloat 2])]]))
        \<lparr>engine = [], index_calls = [], ingest_log = []\<rparr>))
   = [(Inl 0, [(lit ''text'', PStr (lit ''Hello'')),
               (lit ''vector_field'', PList [PFloat (1::real), PFloat 2])])]
   \<and> map (req_body \<circ> fst)
     (index_calls (snd (ingest_data append_only_index (lit ''rag'')
        (PList (map PDict [[(lit ''page_number'', PInt 1), (lit ''text'', PStr (lit ''Hello'')),
                            (lit ''vector_field'', PList [PFloat (1::real), PFloat 2])]]))
        \<lparr>engine = [], index_calls = [], ingest_log = []\<rparr>)))
   = [[(lit ''text'', PStr (lit ''Hello'')),
       (lit ''vector_field'', PList [PFloat (1::real), PFloat 2])]]"
  using ingest_data_document_body[of append_only_index "lit ''rag''"
          "[[(lit ''page_number'', PInt 1), (lit ''text'', PStr (lit ''Hello'')),
             (lit ''vector_field'', PList [PFloat (1::real), PFloat 2])]]"
          "\<lparr>engine = [], index_calls = [], ingest_log = []\<rparr>"]
  by (auto simp: py_get_def lit_eq_iff append_only_index_def replay_Cons simp del: replay.simps(2))

text \<open>
  Claim C2. Running \<open>ingest_data\<close> twice on the same pages sends, in each run, one
  request per page, each without an \<open>id\<close>, whatever the client answers; the second run
  sends the requests of the first again. On an index that stores every request without an
  \<open>id\<close> as a new document, each run adds as many documents as there are pages, so from
  an empty index the document count after the second run is twice that after the first.
\<close>

theorem ingest_data_not_idempotent:
  fixes w0 :: "('s, 'f) ingest_world" and a0 :: "('f stored_docs, 'f) ingest_world"
  shows "(\<exists>w1 w2.
            ingest_data client index_name (PList (map PDict pages)) w0 = (Inr (), w1)
          \<and> ingest_data client index_name (PList (map PDict pages)) w1 = (Inr (), w2)
          \<and> map fst (index_calls w1) = map fst (index_calls w0) @
               map (\<lambda>page. \<lparr>req_index = index_name,
                              req_body = [(lit ''text'', py_get page (lit ''text'')),
                                          (lit ''vector_field'', py_get page (lit ''vector_field''))],
                              req_id = None\<rparr>) pages
          \<and> map fst (index_calls w2) = map fst (index_calls w1) @
               map (\<lambda>page. \<lparr>req_index = index_name,
                              req_body = [(lit ''text'', py_get page (lit ''text'')),
                                          (lit ''vector_field'', py_get page (lit ''vector_field''))],
                              req_id = None\<rparr>) pages
          \<and> length (index_calls w2) = length (index_calls w0) + 2 * length pages)
       \<and> (\<exists>a1 a2.
            ingest_data append_only_index index_name (PList (map PDict pages)) a0 = (Inr (), a1)
          \<and> ingest_data append_only_index index_name (PList (map PDict pages)) a1 = (Inr (), a2)
          \<and> length (engine a1) = length (engine a0) + length pages
          \<and> length (engine a2) = length (engine a1) + length pages
          \<and> (engine a0 = [] \<longrightarrow> length (engine a2) = 2 * length (engine a1)))"
proof (intro conjI)
  let ?rq = "\<lambda>page. \<lparr>req_index = index_name,
                         req_body = [(lit ''text'', py_get page (lit ''text'')),
                                     (lit ''vector_field'', py_get page (lit ''vector_field''))],
                         req_id = None\<rparr>"
  obtain w1 where r1: "ingest_pages client index_name (map PDict pages) w0 = (Inr (), w1)"
    and c1: "map fst (index_calls w1) = map fst (index_calls w0) @ map ?rq pages"
    using ingest_pages_dicts[of client index_name pages w0] by blast
  obtain w2 where r2: "ingest_pages client index_name (map PDict pages) w1 = (Inr (), w2)"
    and c2: "map fst (index_calls w2) = map fst (index_calls w1) @ map ?rq pages"
    using ingest_pages_dicts[of client index_name pages w1] by blast
  have "length (map fst (index_calls w2)) = length (map fst (index_calls w0)) + 2 * length pages"
    unfolding c2 c1 by simp
  then have "length (index_calls w2) = length (index_calls w0) + 2 * length pages" by simp
  with r1 r2 c1 c2
  show "\<exists>w1 w2.
            ingest_data client index_name (PList (map PDict pages)) w0 = (Inr (), w1)
          \<and> ingest_data client index_name (PList (map PDict pages)) w1 = (Inr (), w2)
          \<and> map fst (index_calls w1) = map fst (index_calls w0) @ map ?rq pages
          \<and> map fst (index_calls w2) = map fst (index_calls w1) @ map ?rq pages
          \<and> length (index_calls w2) = length (index_calls w0) + 2 * length pages"
    by (simp add: ingest_data_def)
next
  let ?doc = "\<lambda>page. [(lit ''text'', py_get page (lit ''text'')),
                        (lit ''vector_field'', py_get page (lit ''vector_field''))]"
  obtain a1 where r1: "ingest_pages append_only_index index_name (map PDict pages) a0 = (Inr (), a1)"
    and d1: "map snd (engine a1) = map snd (engine a0) @ map ?doc pages"
    using ingest_pages_append_only[of index_name pages a0] by blast
  obtain a2 where r2: "ingest_pages append_only_index index_name (map PDict pages) a1 = (Inr (), a2)"
    and d2: "map snd (engine a2) = map snd (engine a1) @ map ?doc pages"
    using ingest_pages_append_only[of index_name pages a1] by blast
  have l1: "length (engine a1) = length (engine a0) + length pages"
    using arg_cong[OF d1, of length] by simp
  have l2: "length (engine a2) = length (engine a1) + length pages"
    using arg_cong[OF d2, of length] by simp
  from r1 r2 l1 l2
  show "\<exists>a1 a2.
            ingest_data append_only_index index_name (PList (map PDict pages)) a0 = (Inr (), a1)
          \<and> ingest_data append_only_index index_name (PList (map PDict pages)) a1 = (Inr (), a2)
          \<and> length (engine a1) = length (engine a0) + length pages
          \<and> length (engine a2) = length (engine a1) + length pages
          \<and> (engine a0 = [] \<longrightarrow> length (engine a2) = 2 * length (engine a1))"
    by (simp add: ingest_data_def)
qed


theorem ingest_data_not_idempotent_witness:
  "length (engine (snd (ingest_data append_only_index (lit ''rag'')
      (PList (map PDict [[(lit ''page_number'', PInt 1), (lit ''text'', PStr (lit ''Hello''))],
                         [(lit ''page_number'', PInt 2), (lit ''text'', PStr (lit ''React''))]]))
      (snd (ingest_data append_only_index (lit ''rag'')
         (PList (map PDict [[(lit ''page_number'', PInt 1), (lit ''text'', PStr (lit ''Hello''))],
                            [(lit ''page_number'', PInt 2), (lit ''text'', PStr (lit ''React''))]]))
         \<lparr>engine = ([] :: real stored_docs), index_calls = [], ingest_log = []\<rparr>))))) = 4"
  using ingest_data_not_idempotent[of append_only_index "lit ''rag''"
          "[[(lit ''page_number'', PInt 1), (lit ''text'', PStr (lit ''Hello''))],
            [(lit ''page_number'', PInt 2), (lit ''text'', PStr (lit ''React''))]]"
          "\<lparr>engine = ([] :: real stored_docs), index_calls = [], ingest_log = []\<rparr>"
          "\<lparr>engine = ([] :: real stored_docs), index_calls = [], ingest_log = []\<rparr>"]
  by auto

subsection \<open>Embedding\<close>

lemma py_setitem_other:
  "k \<noteq> k' \<Longrightarrow> map_of (py_setitem d k' v) k = map_of d k"
  by (simp add: py_setitem_def update_conv')


lemma py_setitem_twice:
  "py_setitem (py_setitem d k v) k v' = py_setitem d k v'"
  by (simp add: py_setitem_def)

lemma embed_page_frame:
  fixes w :: "('e, 'f) embed_world"
  assumes "py_haskey (heap w a) (lit ''page_number'')"
  shows "\<exists>w'. embed_page bedrock_client model_id a w = (Inr (), w')
     \<and> (\<forall>b. b \<noteq> a \<longrightarrow> heap w' b = heap w b)
     \<and> (heap w' a = heap w a
          \<or> (\<exists>v. heap w' a = py_setitem (heap w a) (lit ''vector_field'') v))"
proof -
  from assms obtain pn where pn: "py_getitem (heap w a) (lit ''page_number'') = Inr pn"
    by (auto simp: py_haskey_def py_getitem_def)
  show ?thesis
  proof (cases "py_getitem (heap w a) (lit ''text'')")
    case (Inl e)
    with pn show ?thesis by (simp add: embed_page_def embed_info_def Let_def)
  next
    case (Inr t)
    obtain r b where call: "bedrock_client model_id (bedrock w) t = (r, b)"
      by (cases "bedrock_client model_id (bedrock w) t")
    show ?thesis
    proof (cases r)
      case (Inl e)
      with pn Inr call show ?thesis by (simp add: embed_page_def embed_info_def Let_def)
    next
      case (Inr embedding)
      with pn \<open>py_getitem (heap w a) (lit ''text'') = Inr t\<close> call show ?thesis
        by (auto simp: embed_page_def embed_info_def Let_def)
    qed
  qed
qed


lemma embed_pages_frame:
  fixes w :: "('e, 'f) embed_world"
  assumes "\<forall>a\<in>set pages. py_haskey (heap w a) (lit ''page_number'')"
  shows "\<exists>w'. embed_pages bedrock_client model_id pages w = (Inr (), w')
     \<and> (\<forall>b. b \<notin> set pages \<longrightarrow> heap w' b = heap w b)
     \<and> (\<forall>b. heap w' b = heap w b
          \<or> (\<exists>v. heap w' b = py_setitem (heap w b) (lit ''vector_field'') v))"
  using assms
proof (induction pages arbitrary: w)
  case Nil
  then show ?case by simp
next
  case (Cons a pages)
  from Cons.prems have "py_haskey (heap w a) (lit ''page_number'')" by simp
  from embed_page_frame[OF this, of bedrock_client model_id]
  obtain w1 where s: "embed_page bedrock_client model_id a w = (Inr (), w1)"
    and o: "\<forall>b. b \<noteq> a \<longrightarrow> heap w1 b = heap w b"
    and h: "heap w1 a = heap w a
            \<or> (\<exists>v. heap w1 a = py_setitem (heap w a) (lit ''vector_field'') v)"
    by blast
  have step: "heap w1 b = heap w b
            \<or> (\<exists>v. heap w1 b = py_setitem (heap w b) (lit ''vector_field'') v)" for b
    using o h by (cases "b = a") auto
  have keep: "py_haskey (heap w1 b) (lit ''page_number'') = py_haskey (heap w b) (lit ''page_number'')"
    for b
    using step[of b] by (auto simp: py_haskey_def py_setitem_other lit_eq_iff)
  from Cons.prems keep have "\<forall>b\<in>set pages. py_haskey (heap w1 b) (lit ''page_number'')" by simp
  from Cons.IH[OF this]
  obtain w' where r: "embed_pages bedrock_client model_id pages w1 = (Inr (), w')"
    and o': "\<forall>b. b \<notin> set pages \<longrightarrow> heap w' b = heap w1 b"
    and h': "\<forall>b. heap w' b = heap w1 b
            \<or> (\<exists>v. heap w' b = py_setitem (heap w1 b) (lit ''vector_field'') v)"
    by blast
  have "heap w' b = heap w b
            \<or> (\<exists>v. heap w' b = py_setitem (heap w b) (lit ''vector_field'') v)" for b
    using step[of b] h'[rule_format, of b] by (auto simp: py_setitem_twice)
  moreover have "\<forall>b. b \<notin> set (a # pages) \<longrightarrow> heap w' b = heap w b"
    using o o' by simp
  ultimately show ?case using s r by simp
qed

text \<open>
  Claim C10. When every page dictionary has a \<open>page_number\<close>, as the docstring of
  \<open>create_embeddings\<close> requires, the function returns the list it was given (the same
  pages in the same order), and in every page every key other than \<open>vector_field\<close>
  keeps its value, \<open>page_number\<close> and \<open>text\<close> among them: a page is either
  unchanged or has \<open>vector_field\<close> set.
\<close>

theorem create_embeddings_frame:
  fixes w :: "('e, 'f) embed_world"
  assumes "\<forall>a\<in>set pages. py_haskey (heap w a) (lit ''page_number'')"
  shows "\<exists>w'. create_embeddings pages bedrock_client model_id w = (Inr pages, w')
     \<and> length (map (heap w') pages) = length (map (heap w) pages)
     \<and> (\<forall>i<length pages.
           py_get (heap w' (pages ! i)) (lit ''page_number'')
             = py_get (heap w (pages ! i)) (lit ''page_number'')
         \<and> py_get (heap w' (pages ! i)) (lit ''text'')
             = py_get (heap w (pages ! i)) (lit ''text''))
     \<and> (\<forall>a k. k \<noteq> lit ''vector_field'' \<longrightarrow>
           map_of (heap w' a) k = map_of (heap w a) k)
     \<and> (\<forall>a. heap w' a = heap w a
           \<or> (\<exists>v. heap w' a = py_setitem (heap w a) (lit ''vector_field'') v))"
proof -
  let ?w0 = "embed_info INFO [L ''Creating embeddings using model: '', S model_id] w"
  have h0: "heap ?w0 = heap w" by (simp add: embed_info_def)
  with assms have "\<forall>a\<in>set pages. py_haskey (heap ?w0 a) (lit ''page_number'')" by simp
  from embed_pages_frame[OF this, of bedrock_client model_id]
  obtain w1 where r: "embed_pages bedrock_client model_id pages ?w0 = (Inr (), w1)"
    and h: "\<forall>b. heap w1 b = heap w b
            \<or> (\<exists>v. heap w1 b = py_setitem (heap w b) (lit ''vector_field'') v)"
    unfolding h0 by blast
  let ?w' = "embed_info INFO [L ''Embeddings creation completed.''] w1"
  have res: "create_embeddings pages bedrock_client model_id w = (Inr pages, ?w')"
    using r by (simp add: create_embeddings_def Let_def)
  have hw: "heap ?w' = heap w1" by (simp add: embed_info_def)
  have changed: "heap ?w' a = heap w a
           \<or> (\<exists>v. heap ?w' a = py_setitem (heap w a) (lit ''vector_field'') v)" for a
    using h hw by simp
  have other: "map_of (heap ?w' a) k = map_of (heap w a) k" if "k \<noteq> lit ''vector_field''" for a k
    using changed[of a] that by (auto simp: py_setitem_other)
  have fields: "py_get (heap ?w' a) (lit ''page_number'') = py_get (heap w a) (lit ''page_number'')
         \<and> py_get (heap ?w' a) (lit ''text'') = py_get (heap w a) (lit ''text'')" for a
    using other[of "lit ''page_number''" a] other[of "lit ''text''" a]
    by (simp add: py_get_def lit_eq_iff)
  from res changed other fields show ?thesis by auto
qed











text \<open>
  A page without \<open>page_number\<close> is outside that input type: the first
  \<open>logger.debug\<close> of the loop raises \<open>KeyError\<close> before the \<open>try\<close>.
\<close>

lemma create_embeddings_missing_page_number:
  "fst (create_embeddings [0] flaky_bedrock (lit ''amazon.titan-embed-text-v1'')
          (example_world\<lparr>heap := (\<lambda>a. [(lit ''text'', PStr (lit ''React''))])\<rparr>))
     = Inl (Exc KeyError (lit ''page_number''))"
  by (simp add: create_embeddings_def embed_page_def embed_info_def example_world_def
        py_getitem_def lit_eq_iff Let_def)

theorem create_embeddings_frame_witness:
  "py_haskey (heap example_world 0) (lit ''page_number'')
   \<and> py_haskey (heap example_world 1) (lit ''page_number'')
   \<and> fst (create_embeddings [0, 1] flaky_bedrock (lit ''amazon.titan-embed-text-v1'') example_world)
       = Inr [0, 1]
   \<and> py_get (heap (snd (create_embeddings [0, 1] flaky_bedrock
                           (lit ''amazon.titan-embed-text-v1'') example_world)) 1)
        (lit ''text'') = PStr (lit ''React'')"
proof -
  have k: "\<forall>a\<in>set [0, 1]. py_haskey (heap example_world a) (lit ''page_number'')"
    by (simp add: example_world_def example_heap_def py_haskey_def lit_eq_iff)
  from create_embeddings_frame[OF k, of flaky_bedrock "lit ''amazon.titan-embed-text-v1''"]
  obtain w' where
    c: "create_embeddings [0, 1] flaky_bedrock (lit ''amazon.titan-embed-text-v1'') example_world
          = (Inr [0, 1], w')"
    and p: "\<forall>i<length [0, 1 :: addr].
              py_get (heap w' ([0, 1] ! i)) (lit ''text'')
                = py_get (heap example_world ([0, 1] ! i)) (lit ''text'')"
    by blast
  from p[rule_format, of 1] have "py_get (heap w' 1) (lit ''text'') = PStr (lit ''React'')"
    by (simp add: example_world_def example_heap_def py_get_def lit_eq_iff)
  with k c show ?thesis by simp
qed

subsection \<open>The intermediate file\<close>

lemma cp1252_decode_length: "cp1252_decode bs = Inr s \<Longrightarrow> length s = length bs"
  by (induction bs arbitrary: s) (auto split: sum.splits)

lemma utf8_char_length: "utf8_char c = Inr bs \<Longrightarrow> 1 \<le> length bs \<and> (128 \<le> c \<longrightarrow> 2 \<le> length bs)"
  by (auto split: if_splits)

lemma utf8_encode_length:
  "utf8_encode s = Inr bs \<Longrightarrow>
     length s \<le> length bs \<and> ((\<exists>c\<in>set s. 128 \<le> c) \<longrightarrow> length s < length bs)"
proof (induction s arbitrary: bs)
  case Nil
  then show ?case by simp
next
  case (Cons c s)
  from Cons.prems obtain b rest where b: "utf8_char c = Inr b" and r: "utf8_encode s = Inr rest"
    and bs: "bs = b @ rest"
    by (auto simp del: utf8_char.simps split: sum.splits)
  from utf8_char_length[OF b] Cons.IH[OF r] bs show ?case by auto
qed

lemma cp1252_garbles_non_ascii:
  assumes "utf8_encode s = Inr bs" and "\<exists>c\<in>set s. 128 \<le> c"
  shows "cp1252_decode bs \<noteq> Inr s"
proof
  assume "cp1252_decode bs = Inr s"
  then have "length s = length bs" by (rule cp1252_decode_length)
  with utf8_encode_length[OF assms(1)] assms(2) show False by auto
qed



declare utf8_decode.simps [simp del]

lemma recompose3: "(c::nat) div 4096 * 4096 + c div 64 mod 64 * 64 + c mod 64 = c"
proof -
  define d q r m where "d = c div 64" and "q = d div 64" and "r = d mod 64" and "m = c mod 64"
  have a: "c div 4096 = q" by (simp add: d_def q_def div_mult2_eq)
  have f1: "q * 64 + r = d" unfolding q_def r_def by (rule div_mult_mod_eq)
  have f2: "d * 64 + m = c" unfolding d_def m_def by (rule div_mult_mod_eq)
  have "q * 4096 + r * 64 + m = c" using f1 f2 by linarith
  then show ?thesis unfolding a r_def d_def m_def .
qed

lemma recompose4:
  "(c::nat) div 262144 * 262144 + c div 4096 mod 64 * 4096 + c div 64 mod 64 * 64 + c mod 64 = c"
proof -
  define d q r t where "d = c div 4096" and "q = d div 64" and "r = d mod 64"
    and "t = c div 64 mod 64 * 64 + c mod 64"
  have a: "c div 262144 = q" by (simp add: d_def q_def div_mult2_eq)
  have f1: "q * 64 + r = d" unfolding q_def r_def by (rule div_mult_mod_eq)
  have f2: "d * 4096 + t = c" unfolding d_def t_def using recompose3[of c] by simp
  have "q * 262144 + r * 4096 + t = c" using f1 f2 by linarith
  then show ?thesis unfolding a r_def d_def t_def by simp
qed


lemma utf8_head_char:
  assumes "utf8_char c = Inr bs"
  shows "utf8_head (bs @ rest) = Inr (c, rest)"
proof -
  consider (one) "c < 128" | (two) "128 \<le> c" "c < 2048"
    | (three) "2048 \<le> c" "c < 65536" "\<not> (55296 \<le> c \<and> c \<le> 57343)"
    | (four) "65536 \<le> c" "c < 1114112"
    using assms by (auto split: if_splits)
  then show ?thesis
  proof cases
    case one
    with assms show ?thesis by auto
  next
    case two
    with assms have bs: "bs = [192 + c div 64, 128 + c mod 64]" by auto
    from two have "c div 64 < 32" "2 \<le> c div 64" by simp_all
    then show ?thesis unfolding bs by (simp add: utf8_cont_def)
  next
    case three
    with assms have bs: "bs = [224 + c div 4096, 128 + c div 64 mod 64, 128 + c mod 64]"
      by auto
    from three have "c div 4096 < 16" by simp
    with three show ?thesis unfolding bs by (simp add: utf8_cont_def recompose3)
  next
    case four
    with assms have bs: "bs = [240 + c div 262144, 128 + c div 4096 mod 64,
                              128 + c div 64 mod 64, 128 + c mod 64]"
      by auto
    from four have "c div 262144 < 5" by simp
    with four show ?thesis unfolding bs by (simp add: utf8_cont_def recompose4)
  qed
qed

lemma utf8_char_nonempty: "utf8_char c = Inr bs \<Longrightarrow> bs \<noteq> []"
  by (auto split: if_splits)

lemma utf8_round_trip: "utf8_encode s = Inr bs \<Longrightarrow> utf8_decode bs = Inr s"
proof (induction s arbitrary: bs)
  case Nil
  then show ?case by (simp add: utf8_decode.simps)
next
  case (Cons c s)
  from Cons.prems obtain b rest where b: "utf8_char c = Inr b" and r: "utf8_encode s = Inr rest"
    and bs: "bs = b @ rest"
    by (auto simp del: utf8_char.simps split: sum.splits)
  from utf8_char_nonempty[OF b] bs have "bs \<noteq> []" by simp
  with utf8_head_char[OF b, of rest] Cons.IH[OF r] bs show ?case
    by (subst utf8_decode.simps) simp
qed



lemma file_round_trip_utf8:
  assumes "json_dump pages = Inr txt" and "utf8_encode txt = Inr file"
  shows "file_round_trip json_dump UTF8 json_load pages = json_load txt"
  using assms utf8_round_trip[OF assms(2)]
  by (simp add: file_round_trip_def save_pages_def load_pages_def decode_text_def)

lemma file_round_trip_cp1252:
  assumes "json_dump pages = Inr txt" and "utf8_encode txt = Inr file"
      and "\<exists>c\<in>set txt. 128 \<le> c"
  shows "(\<exists>e. file_round_trip json_dump CP1252 json_load pages = Inl e
              \<and> cp1252_decode file = Inl e)
       \<or> (\<exists>txt'. txt' \<noteq> txt \<and> cp1252_decode file = Inr txt'
              \<and> file_round_trip json_dump CP1252 json_load pages = json_load txt')"
proof (cases "cp1252_decode file")
  case (Inl e)
  with assms show ?thesis
    by (simp add: file_round_trip_def save_pages_def load_pages_def decode_text_def)
next
  case (Inr txt')
  with cp1252_garbles_non_ascii[OF assms(2,3)] have "txt' \<noteq> txt" by auto
  with Inr assms show ?thesis
    by (simp add: file_round_trip_def save_pages_def load_pages_def decode_text_def)
qed

lemma example_file:
  "utf8_encode (page_file_text [233]) = Inr (page_file_text [195, 169])"
  by (simp add: page_file_text_def lit_def)

lemma example_file_cp1252:
  "cp1252_decode (page_file_text [195, 169]) = Inr (page_file_text [195, 169])"
  by (simp add: page_file_text_def lit_def cp1252_char_def)

lemma example_texts_differ: "page_file_text [195, 169] \<noteq> page_file_text [233]"
  by (simp add: page_file_text_def)

text \<open>
  Claim C7 at a failing input. The page text is the one character \<open>U+00E9\<close>. The writer
  encodes the file as UTF-8. Read on a platform whose preferred encoding is code page 1252,
  the same file gives the two characters \<open>U+00C3 U+00A9\<close> as the page text, so the
  record read differs from the record written; read as UTF-8 it gives the record written.
\<close>

theorem intermediate_file_read_as_cp1252:
  "file_round_trip example_json_dump CP1252 example_json_load (page_list [233])
     = Inr (page_list [195, 169])
   \<and> page_list [195, 169] \<noteq> page_list [233]
   \<and> file_round_trip example_json_dump UTF8 example_json_load (page_list [233])
     = Inr (page_list [233])"
proof -
  have d: "example_json_dump (page_list [233]) = Inr (page_file_text [233])"
    by (simp add: example_json_dump_def)
  have l: "example_json_load (page_file_text [195, 169]) = Inr (page_list [195, 169])"
    using example_texts_differ by (simp add: example_json_load_def)
  have l': "example_json_load (page_file_text [233]) = Inr (page_list [233])"
    by (simp add: example_json_load_def)
  have "file_round_trip example_json_dump CP1252 example_json_load (page_list [233])
     = Inr (page_list [195, 169])"
    by (simp add: file_round_trip_def save_pages_def load_pages_def decode_text_def d
          example_file example_file_cp1252 l)
  moreover have "page_list [195, 169] \<noteq> page_list [233]" by (simp add: page_list_def)
  moreover have "file_round_trip example_json_dump UTF8 example_json_load (page_list [233])
     = Inr (page_list [233])"
    using file_round_trip_utf8[of example_json_dump "page_list [233]" "page_file_text [233]"
            "page_file_text [195, 169]" example_json_load, OF d example_file] l' by simp
  ultimately show ?thesis by simp
qed


subsection \<open>Endpoint lookup\<close>

text \<open>
  Claim C9. Once the \<open>es\<close> client exists, \<open>get_opensearch_endpoint\<close> returns a value
  and does not raise: the endpoint string when the response has a non-empty \<open>Endpoint\<close>,
  \<open>None\<close> when \<open>DomainStatus\<close> has no \<open>Endpoint\<close>, and \<open>None\<close> when the lookup
  raises any exception, \<open>ClientError\<close> included; the lines printed are given in each case.
  The client is created before the \<open>try\<close>: an exception raised there is not a failed lookup,
  and it leaves the function as raised, with nothing printed.
\<close>

theorem get_opensearch_endpoint_result:
  fixes boto3_client :: "pystr \<Rightarrow> exc + ('f::zero) es_client"
  shows
   "(\<forall>describe. boto3_client region = Inr describe \<longrightarrow>
        (\<exists>v. fst (get_opensearch_endpoint boto3_client domain_name region) = Inr v)
      \<and> (\<forall>resp status ep.
            describe domain_name = Inr (PDict resp)
          \<and> py_getitem resp (lit ''DomainStatus'') = Inr (PDict status)
          \<and> py_getitem status (lit ''Endpoint'') = Inr (PStr ep) \<and> ep \<noteq> []
          \<longrightarrow> get_opensearch_endpoint boto3_client domain_name region
               = (Inr (PStr ep),
                  [(Stdout, [L ''Attempting to describe OpenSearch domain: '', S domain_name]),
                   (Stdout, [L ''Domain description retrieved successfully'']),
                   (Stdout, [L ''Endpoint: '', V (PStr ep)])]))
      \<and> (\<forall>resp status.
            describe domain_name = Inr (PDict resp)
          \<and> py_getitem resp (lit ''DomainStatus'') = Inr (PDict status)
          \<and> \<not> py_haskey status (lit ''Endpoint'')
          \<longrightarrow> get_opensearch_endpoint boto3_client domain_name region
               = (Inr PNone,
                  [(Stdout, [L ''Attempting to describe OpenSearch domain: '', S domain_name]),
                   (Stdout, [L ''Domain description retrieved successfully'']),
                   (Stderr, [L ''No endpoint found for the domain.''])]))
      \<and> (\<forall>e. describe domain_name = Inl e
          \<longrightarrow> get_opensearch_endpoint boto3_client domain_name region
               = (Inr PNone,
                  [(Stdout, [L ''Attempting to describe OpenSearch domain: '', S domain_name]),
                   (Stderr, [L (if exc_cls e = ClientError then ''ClientError: ''
                                else ''An error occurred during script execution: ''), E e])])))
  \<and> (\<forall>e. boto3_client region = Inl e
      \<longrightarrow> get_opensearch_endpoint boto3_client domain_name region = (Inl e, []))"
  by (auto simp: get_opensearch_endpoint_def Let_def py_get_def py_getitem_def py_haskey_def
           split: option.splits sum.splits)

theorem get_opensearch_endpoint_result_witness:
  "fst (get_opensearch_endpoint
          (\<lambda>region. Inr (\<lambda>domain_name. Inr (PDict [(lit ''DomainStatus'',
               PDict [(lit ''Endpoint'', PStr (lit ''search-rag-abcdef123456.eu-central-1.es.amazonaws.com''))])])))
          (lit ''rag'') (lit ''eu-central-1'') :: (exc + real pyval) \<times> real print_line list)
     = Inr (PStr (lit ''search-rag-abcdef123456.eu-central-1.es.amazonaws.com''))
   \<and> fst (get_opensearch_endpoint
          (\<lambda>region. Inr (\<lambda>domain_name. Inr (PDict [(lit ''DomainStatus'', PDict [])])))
          (lit ''rag'') (lit ''eu-central-1'') :: (exc + real pyval) \<times> real print_line list)
       = Inr PNone
   \<and> fst (get_opensearch_endpoint
          (\<lambda>region. Inr (\<lambda>domain_name.
             Inl (Exc ClientError (lit ''ResourceNotFoundException: Domain not found''))))
          (lit ''rag'') (lit ''eu-central-1'') :: (exc + real pyval) \<times> real print_line list)
       = Inr PNone
   \<and> fst (get_opensearch_endpoint
          (\<lambda>region. Inl (Exc (OtherError ''InvalidRegionError'') (lit ''invalid region'')))
          (lit ''rag'') (lit ''eu central'') :: (exc + real pyval) \<times> real print_line list)
       = Inl (Exc (OtherError ''InvalidRegionError'') (lit ''invalid region''))"
  using get_opensearch_endpoint_result[where 'f = real and region = "lit ''eu-central-1''"
          and domain_name = "lit ''rag''"
          and boto3_client = "\<lambda>region. Inr (\<lambda>domain_name. Inr (PDict [(lit ''DomainStatus'',
               PDict [(lit ''Endpoint'', PStr (lit ''search-rag-abcdef123456.eu-central-1.es.amazonaws.com''))])]))"]
        get_opensearch_endpoint_result[where 'f = real and region = "lit ''eu-central-1''"
          and domain_name = "lit ''rag''"
          and boto3_client = "\<lambda>region. Inr (\<lambda>domain_name. Inr (PDict [(lit ''DomainStatus'', PDict [])]))"]
        get_opensearch_endpoint_result[where 'f = real and region = "lit ''eu-central-1''"
          and domain_name = "lit ''rag''"
          and boto3_client = "\<lambda>region. Inr (\<lambda>domain_name.
             Inl (Exc ClientError (lit ''ResourceNotFoundException: Domain not found'')))"]
        get_opensearch_endpoint_result[where 'f = real and region = "lit ''eu central''"
          and domain_name = "lit ''rag''"
          and boto3_client = "\<lambda>region. Inl (Exc (OtherError ''InvalidRegionError'') (lit ''invalid region''))"]
  by (simp add: py_getitem_def py_haskey_def lit_def)


subsection \<open>Index deletion\<close>

lemma py_startswith_lit: "py_startswith (lit a) (lit b) \<longleftrightarrow> take (length b) a = b"
proof -
  have "py_startswith (lit a) (lit b) \<longleftrightarrow> lit (take (length b) a) = lit b"
    by (simp add: py_startswith_def lit_def take_map)
  then show ?thesis by (simp only: lit_eq_iff)
qed

lemma delete_opensearch_index_call:
  fixes w :: "('s, 'f::zero) delete_world"
  shows "\<exists>lg. delete_calls (snd (delete_opensearch_index client index w))
           = delete_calls w @ [(index, fst (indices_delete client (cluster w) index))]
       \<and> cluster (snd (delete_opensearch_index client index w))
           = snd (indices_delete client (cluster w) index)
       \<and> delete_log (snd (delete_opensearch_index client index w)) = delete_log w @ lg
       \<and> (\<forall>l\<in>set lg. fst l \<noteq> WARNING)
       \<and> py_truthy (fst (delete_opensearch_index client index w))
           = (case fst (indices_delete client (cluster w) index) of
                Inl e \<Rightarrow> False
              | Inr response \<Rightarrow>
                  (case val_getitem response (lit ''acknowledged'') of
                     Inl e \<Rightarrow> False
                   | Inr acknowledged \<Rightarrow> py_truthy acknowledged))
       \<and> (\<forall>e. fst (indices_delete client (cluster w) index) = Inl e \<longrightarrow>
             fst (delete_opensearch_index client index w) = PBool False
           \<and> (ERROR, [L ''Error deleting index '', S index, L '': '', E e]) \<in> set lg)"
  by (cases "indices_delete client (cluster w) index")
     (auto simp: delete_opensearch_index_def delete_info_def Let_def split: sum.splits)

lemma list_all_indices_calls:
  fixes w :: "('s, 'f) delete_world"
  shows "delete_calls (snd (list_all_indices client w)) = delete_calls w
       \<and> cluster (snd (list_all_indices client w)) = snd (get_alias client (cluster w))
       \<and> (\<exists>lg. delete_log (snd (list_all_indices client w)) = delete_log w @ lg
              \<and> (\<forall>l\<in>set lg. fst l \<noteq> WARNING \<and> fst l \<noteq> INFO))"
  by (cases "get_alias client (cluster w)")
     (auto simp: list_all_indices_def delete_info_def Let_def split: sum.splits pyval.splits)


lemma delete_each_spec:
  fixes w :: "('s, 'f::zero) delete_world"
  shows "\<exists>lg.
       delete_calls (delete_each client indices w) = delete_calls w @
         fst (replay (indices_delete client) (cluster w)
                (filter (\<lambda>n. \<not> py_startswith n (lit ''.'')) indices))
     \<and> cluster (delete_each client indices w) =
         snd (replay (indices_delete client) (cluster w)
                (filter (\<lambda>n. \<not> py_startswith n (lit ''.'')) indices))
     \<and> delete_log (delete_each client indices w) = delete_log w @ lg
     \<and> filter (\<lambda>l. fst l = WARNING) lg =
         map (\<lambda>c. (WARNING, [L ''Failed to delete index: '', S (fst c)]))
           (filter (\<lambda>c. \<not> (case snd c of
                       Inl e \<Rightarrow> False
                     | Inr response \<Rightarrow>
                         (case val_getitem response (lit ''acknowledged'') of
                            Inl e \<Rightarrow> False
                          | Inr acknowledged \<Rightarrow> py_truthy acknowledged)))
              (fst (replay (indices_delete client) (cluster w)
                      (filter (\<lambda>n. \<not> py_startswith n (lit ''.'')) indices))))
     \<and> (\<forall>n\<in>set indices. py_startswith n (lit ''.'') \<longrightarrow>
           (INFO, [L ''Skipping system index: '', S n]) \<in> set lg)
     \<and> (\<forall>n e. (n, Inl e) \<in> set (fst (replay (indices_delete client) (cluster w)
                      (filter (\<lambda>n. \<not> py_startswith n (lit ''.'')) indices))) \<longrightarrow>
           (ERROR, [L ''Error deleting index '', S n, L '': '', E e]) \<in> set lg)"
proof (induction indices arbitrary: w)
  case Nil
  then show ?case by simp
next
  case (Cons index indices)
  let ?dot = "\<lambda>n. \<not> py_startswith n (lit ''.'')"
  let ?ok = "\<lambda>c :: pystr \<times> (exc + 'f pyval). (case snd c of
                       Inl e \<Rightarrow> False
                     | Inr response \<Rightarrow>
                         (case val_getitem response (lit ''acknowledged'') of
                            Inl e \<Rightarrow> False
                          | Inr acknowledged \<Rightarrow> py_truthy acknowledged))"
  let ?warn = "\<lambda>c :: pystr \<times> (exc + 'f pyval). (WARNING, [L ''Failed to delete index: '', S (fst c)]) :: 'f log_line"
  show ?case
  proof (cases "py_startswith index (lit ''.'')")
    case True
    let ?w1 = "delete_info INFO [L ''Skipping system index: '', S index] w"
    have cl: "cluster ?w1 = cluster w" and dc: "delete_calls ?w1 = delete_calls w"
      and dl: "delete_log ?w1 = delete_log w @ [(INFO, [L ''Skipping system index: '', S index])]"
      by (simp_all add: delete_info_def)
    from Cons.IH[of ?w1] obtain lg where
      c: "delete_calls (delete_each client indices ?w1) = delete_calls ?w1 @
            fst (replay (indices_delete client) (cluster ?w1) (filter ?dot indices))"
      and s: "cluster (delete_each client indices ?w1) =
            snd (replay (indices_delete client) (cluster ?w1) (filter ?dot indices))"
      and l: "delete_log (delete_each client indices ?w1) = delete_log ?w1 @ lg"
      and wn: "filter (\<lambda>l. fst l = WARNING) lg =
            map ?warn (filter (\<lambda>c. \<not> ?ok c)
              (fst (replay (indices_delete client) (cluster ?w1) (filter ?dot indices))))"
      and k: "\<forall>n\<in>set indices. py_startswith n (lit ''.'') \<longrightarrow>
                (INFO, [L ''Skipping system index: '', S n]) \<in> set lg"
      and f: "\<forall>n e. (n, Inl e) \<in> set (fst (replay (indices_delete client) (cluster ?w1)
                      (filter ?dot indices))) \<longrightarrow>
                (ERROR, [L ''Error deleting index '', S n, L '': '', E e]) \<in> set lg"
      by blast
    let ?lg = "(INFO, [L ''Skipping system index: '', S index]) # lg"
    have run: "delete_each client (index # indices) w = delete_each client indices ?w1"
      using True by simp
    have fl: "filter ?dot (index # indices) = filter ?dot indices" using True by simp
    have "delete_log (delete_each client (index # indices) w) = delete_log w @ ?lg"
      unfolding run l dl by simp
    moreover have "filter (\<lambda>l. fst l = WARNING) ?lg =
            map ?warn (filter (\<lambda>c. \<not> ?ok c)
              (fst (replay (indices_delete client) (cluster w) (filter ?dot (index # indices)))))"
      unfolding fl using wn cl by simp
    moreover have "\<forall>n\<in>set (index # indices). py_startswith n (lit ''.'') \<longrightarrow>
                (INFO, [L ''Skipping system index: '', S n]) \<in> set ?lg"
      using k by simp
    moreover have "\<forall>n e. (n, Inl e) \<in> set (fst (replay (indices_delete client) (cluster w)
                      (filter ?dot (index # indices)))) \<longrightarrow>
                (ERROR, [L ''Error deleting index '', S n, L '': '', E e]) \<in> set ?lg"
      unfolding fl using f cl by simp
    moreover have "delete_calls (delete_each client (index # indices) w) = delete_calls w @
            fst (replay (indices_delete client) (cluster w) (filter ?dot (index # indices)))"
      unfolding run fl using c cl dc by simp
    moreover have "cluster (delete_each client (index # indices) w) =
            snd (replay (indices_delete client) (cluster w) (filter ?dot (index # indices)))"
      unfolding run fl using s cl by simp
    ultimately show ?thesis by blast
  next
    case False
    obtain success w1 where d: "delete_opensearch_index client index w = (success, w1)"
      by (cases "delete_opensearch_index client index w")
    let ?r = "fst (indices_delete client (cluster w) index)"
    let ?s1 = "snd (indices_delete client (cluster w) index)"
    from delete_opensearch_index_call[of client index w] d obtain lg1 where
      c1: "delete_calls w1 = delete_calls w @ [(index, ?r)]"
      and s1: "cluster w1 = ?s1"
      and l1: "delete_log w1 = delete_log w @ lg1"
      and n1: "\<forall>l\<in>set lg1. fst l \<noteq> WARNING"
      and t1: "py_truthy success = ?ok (index, ?r)"
      and e1: "\<forall>e. ?r = Inl e \<longrightarrow>
                 (ERROR, [L ''Error deleting index '', S index, L '': '', E e]) \<in> set lg1"
      by auto
    let ?w2 = "if \<not> py_truthy success
               then delete_info WARNING [L ''Failed to delete index: '', S index] w1 else w1"
    let ?lg2 = "if \<not> py_truthy success
                then lg1 @ [(WARNING, [L ''Failed to delete index: '', S index])] else lg1"
    have c2: "delete_calls ?w2 = delete_calls w @ [(index, ?r)]"
      using c1 by (simp add: delete_info_def)
    have s2: "cluster ?w2 = ?s1" using s1 by (simp add: delete_info_def)
    have l2: "delete_log ?w2 = delete_log w @ ?lg2"
      using l1 by (simp add: delete_info_def)
    have f1: "filter (\<lambda>l. fst l = WARNING) lg1 = []" using n1 by (simp add: filter_empty_conv)
    have w2: "filter (\<lambda>l. fst l = WARNING) ?lg2
                = map ?warn (filter (\<lambda>c. \<not> ?ok c) [(index, ?r)])"
      using f1 t1 by simp
    from Cons.IH[of ?w2] obtain lg where
      c: "delete_calls (delete_each client indices ?w2) = delete_calls ?w2 @
            fst (replay (indices_delete client) (cluster ?w2) (filter ?dot indices))"
      and s: "cluster (delete_each client indices ?w2) =
            snd (replay (indices_delete client) (cluster ?w2) (filter ?dot indices))"
      and l: "delete_log (delete_each client indices ?w2) = delete_log ?w2 @ lg"
      and wn: "filter (\<lambda>l. fst l = WARNING) lg =
            map ?warn (filter (\<lambda>c. \<not> ?ok c)
              (fst (replay (indices_delete client) (cluster ?w2) (filter ?dot indices))))"
      and k: "\<forall>n\<in>set indices. py_startswith n (lit ''.'') \<longrightarrow>
                (INFO, [L ''Skipping system index: '', S n]) \<in> set lg"
      and f: "\<forall>n e. (n, Inl e) \<in> set (fst (replay (indices_delete client) (cluster ?w2)
                      (filter ?dot indices))) \<longrightarrow>
                (ERROR, [L ''Error deleting index '', S n, L '': '', E e]) \<in> set lg"
      by blast
    let ?rest = "replay (indices_delete client) ?s1 (filter ?dot indices)"
    have run: "delete_each client (index # indices) w = delete_each client indices ?w2"
      using False d by simp
    have rp: "replay (indices_delete client) (cluster w) (filter ?dot (index # indices))
                = ((index, ?r) # fst ?rest, snd ?rest)"
      using False by (simp add: replay_Cons del: replay.simps(2))
    have "delete_calls (delete_each client (index # indices) w) = delete_calls w @
            fst (replay (indices_delete client) (cluster w) (filter ?dot (index # indices)))"
      unfolding run rp c c2 s2 by simp
    moreover have "cluster (delete_each client (index # indices) w) =
            snd (replay (indices_delete client) (cluster w) (filter ?dot (index # indices)))"
      unfolding run rp s s2 by simp
    moreover have "delete_log (delete_each client (index # indices) w) = delete_log w @ (?lg2 @ lg)"
      unfolding run l l2 by simp
    moreover have "filter (\<lambda>l. fst l = WARNING) (?lg2 @ lg) =
            map ?warn (filter (\<lambda>c. \<not> ?ok c)
              (fst (replay (indices_delete client) (cluster w) (filter ?dot (index # indices)))))"
    proof -
      have "filter (\<lambda>l. fst l = WARNING) (?lg2 @ lg)
              = filter (\<lambda>l. fst l = WARNING) ?lg2 @ filter (\<lambda>l. fst l = WARNING) lg"
        by (rule filter_append)
      also have "\<dots> = map ?warn (filter (\<lambda>c. \<not> ?ok c) [(index, ?r)])
                        @ map ?warn (filter (\<lambda>c. \<not> ?ok c) (fst ?rest))"
        unfolding w2 wn s2 ..
      also have "\<dots> = map ?warn (filter (\<lambda>c. \<not> ?ok c) ((index, ?r) # fst ?rest))"
        by simp
      finally show ?thesis unfolding rp by simp
    qed
    moreover have "\<forall>n\<in>set (index # indices). py_startswith n (lit ''.'') \<longrightarrow>
                (INFO, [L ''Skipping system index: '', S n]) \<in> set (?lg2 @ lg)"
      using k False by auto
    moreover have "\<forall>n e. (n, Inl e) \<in> set (fst (replay (indices_delete client) (cluster w)
                      (filter ?dot (index # indices)))) \<longrightarrow>
                (ERROR, [L ''Error deleting index '', S n, L '': '', E e]) \<in> set (?lg2 @ lg)"
    proof (intro allI impI)
      fix n e
      assume "(n, Inl e) \<in> set (fst (replay (indices_delete client) (cluster w)
                      (filter ?dot (index # indices))))"
      then consider (here) "n = index" "?r = Inl e" | (later) "(n, Inl e) \<in> set (fst ?rest)"
        unfolding rp by auto
      then show "(ERROR, [L ''Error deleting index '', S n, L '': '', E e]) \<in> set (?lg2 @ lg)"
      proof cases
        case here
        from e1[rule_format, OF here(2)] here(1) show ?thesis
          by (simp only: set_append Un_iff) auto
      next
        case later
        with f s2 show ?thesis by (simp only: set_append Un_iff) auto
      qed
    qed
    ultimately show ?thesis by blast
  qed
qed


text \<open>
  Claim C6. \<open>delete_all_indices\<close> always returns. Of the indices listed, it sends a
  \<open>delete\<close> request to the cluster for exactly those whose name does not start with
  \<open>.\<close>, in order, each on the cluster as the earlier deletions left it and whatever they
  answered; the cluster ends as these requests, and the final listing, leave it. An index
  whose name starts with \<open>.\<close> is logged as skipped and no request is sent for it. The
  \<open>WARNING\<close> lines are exactly one \<open>Failed to delete index\<close> line, in order, for each
  request that raised or was not acknowledged; a request that raises is also logged at
  \<open>ERROR\<close>, and makes \<open>delete_opensearch_index\<close> return \<open>False\<close>.
\<close>

theorem delete_all_indices_best_effort:
  fixes w :: "('s, 'f::zero) delete_world"
  shows "\<exists>lg.
       delete_calls (delete_all_indices client w) = delete_calls w @
         fst (replay (indices_delete client) (snd (get_alias client (cluster w)))
                (filter (\<lambda>n. \<not> py_startswith n (lit ''.''))
                   (fst (list_all_indices client w))))
     \<and> cluster (delete_all_indices client w) =
         snd (get_alias client (snd (replay (indices_delete client) (snd (get_alias client (cluster w)))
                (filter (\<lambda>n. \<not> py_startswith n (lit ''.''))
                   (fst (list_all_indices client w))))))
     \<and> delete_log (delete_all_indices client w) = delete_log w @ lg
     \<and> filter (\<lambda>l. fst l = WARNING) lg =
         map (\<lambda>c. (WARNING, [L ''Failed to delete index: '', S (fst c)]))
           (filter (\<lambda>c. \<not> (case snd c of
                       Inl e \<Rightarrow> False
                     | Inr response \<Rightarrow>
                         (case val_getitem response (lit ''acknowledged'') of
                            Inl e \<Rightarrow> False
                          | Inr acknowledged \<Rightarrow> py_truthy acknowledged)))
              (fst (replay (indices_delete client) (snd (get_alias client (cluster w)))
                (filter (\<lambda>n. \<not> py_startswith n (lit ''.''))
                   (fst (list_all_indices client w))))))
     \<and> (\<forall>n\<in>set (fst (list_all_indices client w)). py_startswith n (lit ''.'') \<longrightarrow>
           n \<notin> set (map fst (fst (replay (indices_delete client) (snd (get_alias client (cluster w)))
                (filter (\<lambda>n. \<not> py_startswith n (lit ''.''))
                   (fst (list_all_indices client w))))))
         \<and> (INFO, [L ''Skipping system index: '', S n]) \<in> set lg)
     \<and> (\<forall>n e. (n, Inl e) \<in> set (fst (replay (indices_delete client) (snd (get_alias client (cluster w)))
                (filter (\<lambda>n. \<not> py_startswith n (lit ''.''))
                   (fst (list_all_indices client w))))) \<longrightarrow>
           (ERROR, [L ''Error deleting index '', S n, L '': '', E e]) \<in> set lg
         \<and> (WARNING, [L ''Failed to delete index: '', S n]) \<in> set lg)
     \<and> (\<forall>index v e. fst (indices_delete client (cluster v) index) = Inl e \<longrightarrow>
           fst (delete_opensearch_index client index v) = PBool False)"
proof -
  let ?dot = "\<lambda>n. \<not> py_startswith n (lit ''.'')"
  let ?ok = "\<lambda>c :: pystr \<times> (exc + 'f pyval). (case snd c of
                       Inl e \<Rightarrow> False
                     | Inr response \<Rightarrow>
                         (case val_getitem response (lit ''acknowledged'') of
                            Inl e \<Rightarrow> False
                          | Inr acknowledged \<Rightarrow> py_truthy acknowledged))"
  let ?warn = "\<lambda>c :: pystr \<times> (exc + 'f pyval).
                 (WARNING, [L ''Failed to delete index: '', S (fst c)]) :: 'f log_line"
  obtain indices w1 where ls: "list_all_indices client w = (indices, w1)"
    by (cases "list_all_indices client w")
  from list_all_indices_calls[of client w] ls obtain lg1 where
    c1: "delete_calls w1 = delete_calls w"
    and s1: "cluster w1 = snd (get_alias client (cluster w))"
    and l1: "delete_log w1 = delete_log w @ lg1"
    and n1: "\<forall>l\<in>set lg1. fst l \<noteq> WARNING \<and> fst l \<noteq> INFO"
    by auto
  let ?found = "(INFO, [L ''Found '', V (PInt (int (length indices))), L '' indices'']) :: 'f log_line"
  let ?w2 = "delete_info INFO (snd ?found) w1"
  have c2: "delete_calls ?w2 = delete_calls w" and s2: "cluster ?w2 = snd (get_alias client (cluster w))"
    and l2: "delete_log ?w2 = delete_log w @ lg1 @ [?found]"
    using c1 s1 l1 by (simp_all add: delete_info_def)
  let ?w3 = "delete_each client indices ?w2"
  let ?rp = "replay (indices_delete client) (snd (get_alias client (cluster w))) (filter ?dot indices)"
  from delete_each_spec[of client indices ?w2] obtain lg where
    c3: "delete_calls ?w3 = delete_calls ?w2 @ fst ?rp"
    and s3: "cluster ?w3 = snd ?rp"
    and l3: "delete_log ?w3 = delete_log ?w2 @ lg"
    and wn: "filter (\<lambda>l. fst l = WARNING) lg = map ?warn (filter (\<lambda>c. \<not> ?ok c) (fst ?rp))"
    and k: "\<forall>n\<in>set indices. py_startswith n (lit ''.'') \<longrightarrow>
              (INFO, [L ''Skipping system index: '', S n]) \<in> set lg"
    and f: "\<forall>n e. (n, Inl e) \<in> set (fst ?rp) \<longrightarrow>
              (ERROR, [L ''Error deleting index '', S n, L '': '', E e]) \<in> set lg"
    unfolding s2 by blast
  obtain remaining w4 where ls2: "list_all_indices client ?w3 = (remaining, w4)"
    by (cases "list_all_indices client ?w3")
  from list_all_indices_calls[of client ?w3] ls2 obtain lg4 where
    c4: "delete_calls w4 = delete_calls ?w3"
    and s4: "cluster w4 = snd (get_alias client (cluster ?w3))"
    and l4: "delete_log w4 = delete_log ?w3 @ lg4"
    and n4: "\<forall>l\<in>set lg4. fst l \<noteq> WARNING \<and> fst l \<noteq> INFO"
    by auto
  let ?last = "(INFO, [L ''Remaining indices after deletion: '', V (PList (map PStr remaining))])
                 :: 'f log_line"
  have res: "delete_all_indices client w = delete_info INFO (snd ?last) w4"
    using ls ls2 by (simp add: delete_all_indices_def Let_def)
  let ?lg = "lg1 @ [?found] @ lg @ lg4 @ [?last]"
  have ix: "fst (list_all_indices client w) = indices" using ls by simp
  have calls: "delete_calls (delete_all_indices client w) = delete_calls w @ fst ?rp"
    unfolding res using c4 c3 c2 by (simp add: delete_info_def)
  have clus: "cluster (delete_all_indices client w) = snd (get_alias client (snd ?rp))"
    unfolding res using s4 s3 by (simp add: delete_info_def)
  have logs: "delete_log (delete_all_indices client w) = delete_log w @ ?lg"
    unfolding res using l4 l3 l2 by (simp add: delete_info_def)
  have f1: "filter (\<lambda>l. fst l = WARNING) lg1 = []" "filter (\<lambda>l. fst l = WARNING) lg4 = []"
    using n1 n4 by (simp_all add: filter_empty_conv)
  have warns: "filter (\<lambda>l. fst l = WARNING) ?lg = map ?warn (filter (\<lambda>c. \<not> ?ok c) (fst ?rp))"
    using f1 wn by simp
  have att: "map fst (fst ?rp) = filter ?dot indices" by (rule replay_requests)
  have skipped: "\<forall>n\<in>set indices. py_startswith n (lit ''.'') \<longrightarrow>
           n \<notin> set (map fst (fst ?rp))
         \<and> (INFO, [L ''Skipping system index: '', S n]) \<in> set ?lg"
    using k unfolding att by auto
  have failed: "\<forall>n e. (n, Inl e) \<in> set (fst ?rp) \<longrightarrow>
           (ERROR, [L ''Error deleting index '', S n, L '': '', E e]) \<in> set ?lg
         \<and> (WARNING, [L ''Failed to delete index: '', S n]) \<in> set ?lg"
  proof (intro allI impI)
    fix n e
    assume m: "(n, Inl e) \<in> set (fst ?rp)"
    then have "(n, Inl e) \<in> set (filter (\<lambda>c. \<not> ?ok c) (fst ?rp))" by simp
    then have "?warn (n, Inl e) \<in> set (map ?warn (filter (\<lambda>c. \<not> ?ok c) (fst ?rp)))"
      unfolding set_map by (rule imageI)
    then have "?warn (n, Inl e) \<in> set (filter (\<lambda>l. fst l = WARNING) ?lg)"
      unfolding warns .
    then have "(WARNING, [L ''Failed to delete index: '', S n]) \<in> set ?lg" by simp
    moreover from f m have "(ERROR, [L ''Error deleting index '', S n, L '': '', E e]) \<in> set ?lg"
      by simp
    ultimately show "(ERROR, [L ''Error deleting index '', S n, L '': '', E e]) \<in> set ?lg
         \<and> (WARNING, [L ''Failed to delete index: '', S n]) \<in> set ?lg" by simp
  qed
  have false: "\<forall>index v e. fst (indices_delete client (cluster v) index) = Inl e \<longrightarrow>
           fst (delete_opensearch_index client index v) = PBool False"
    by (auto simp: delete_opensearch_index_def delete_info_def Let_def split: prod.splits)
  from calls clus logs warns skipped failed false show ?thesis
    unfolding ix by blast
qed

lemma example_listing:
  "fst (list_all_indices example_cluster example_indices)
     = [lit ''.kibana'', lit ''rag'', lit ''rag-test'']"
  by (simp add: list_all_indices_def example_cluster_def example_indices_def py_keys_def
        Let_def comp_def)

lemma example_replay:
  "replay (indices_delete example_cluster)
     (snd (get_alias example_cluster (cluster example_indices)))
     [lit ''rag'', lit ''rag-test'']
   = ([(lit ''rag'', Inl (Exc (OtherError ''AuthorizationException'') (lit ''no permissions''))),
       (lit ''rag-test'', Inr (PDict [(lit ''acknowledged'', PBool True)]))],
      [lit ''.kibana'', lit ''rag''])"
  by (simp add: example_cluster_def example_indices_def lit_eq_iff)

theorem delete_all_indices_best_effort_witness:
  "delete_calls (delete_all_indices example_cluster example_indices)
     = [(lit ''rag'', Inl (Exc (OtherError ''AuthorizationException'') (lit ''no permissions''))),
        (lit ''rag-test'', Inr (PDict [(lit ''acknowledged'', PBool True)]))]
   \<and> cluster (delete_all_indices example_cluster example_indices) = [lit ''.kibana'', lit ''rag'']
   \<and> (WARNING, [L ''Failed to delete index: '', S (lit ''rag'')])
       \<in> set (delete_log (delete_all_indices example_cluster example_indices))"
proof -
  have fl: "filter (\<lambda>n. \<not> py_startswith n (lit ''.''))
          [lit ''.kibana'', lit ''rag'', lit ''rag-test''] = [lit ''rag'', lit ''rag-test'']"
    by (simp add: py_startswith_lit)
  from delete_all_indices_best_effort[of example_cluster example_indices]
  obtain lg where
    c: "delete_calls (delete_all_indices example_cluster example_indices)
          = delete_calls example_indices @
            fst (replay (indices_delete example_cluster)
                   (snd (get_alias example_cluster (cluster example_indices)))
                   [lit ''rag'', lit ''rag-test''])"
    and s: "cluster (delete_all_indices example_cluster example_indices)
          = snd (get_alias example_cluster
                  (snd (replay (indices_delete example_cluster)
                   (snd (get_alias example_cluster (cluster example_indices)))
                   [lit ''rag'', lit ''rag-test''])))"
    and l: "delete_log (delete_all_indices example_cluster example_indices)
          = delete_log example_indices @ lg"
    and f: "\<forall>n e. (n, Inl e) \<in> set (fst (replay (indices_delete example_cluster)
                   (snd (get_alias example_cluster (cluster example_indices)))
                   [lit ''rag'', lit ''rag-test''])) \<longrightarrow>
           (WARNING, [L ''Failed to delete index: '', S n]) \<in> set lg"
    unfolding example_listing fl by blast
  have "delete_calls example_indices = []" by (simp add: example_indices_def)
  with c have c': "delete_calls (delete_all_indices example_cluster example_indices)
     = [(lit ''rag'', Inl (Exc (OtherError ''AuthorizationException'') (lit ''no permissions''))),
        (lit ''rag-test'', Inr (PDict [(lit ''acknowledged'', PBool True)]))]"
    unfolding example_replay by simp
  from s have s': "cluster (delete_all_indices example_cluster example_indices)
     = [lit ''.kibana'', lit ''rag'']"
    unfolding example_replay by (simp add: example_cluster_def)
  from f[unfolded example_replay, rule_format,
         of "lit ''rag''" "Exc (OtherError ''AuthorizationException'') (lit ''no permissions'')"]
  have "(WARNING, [L ''Failed to delete index: '', S (lit ''rag'')]) \<in> set lg" by simp
  with l have l': "(WARNING, [L ''Failed to delete index: '', S (lit ''rag'')])
       \<in> set (delete_log (delete_all_indices example_cluster example_indices))" by simp
  from c' s' l' show ?thesis by simp
qed


subsection \<open>Secret retrieval\<close>




lemma show_secret_raw:
  assumes "json_loads s = Inl e" "exc_cls e = JSONDecodeError"
  shows "show_secret json_loads (PDict [(lit ''SecretString'', PStr s)]) lg
     = (Inr (PStr s),
        lg @ [(INFO, [L ''Secret retrieved successfully'']),
              (INFO, [L ''Secret is not in JSON format. Raw secret (masked):'']),
              (INFO, [S (replicate (length s) 42)])])"
  using assms by (simp add: show_secret_def py_getitem_def Let_def)






lemma example_secret_name:
  "get_secret_name (secrets_holding s) (lit ''eu-central-1'') (lit ''rag'')
     = (Inr (PStr (lit ''rag-master-password'')),
        [(INFO, [L ''Attempting to list secrets in region '', S (lit ''eu-central-1'')]),
         (INFO, [L ''Found matching secret: '', V (PStr (lit ''rag-master-password''))])])"
proof -
  have "py_contains (lit ''rag'') (lit ''rag-master-password'')"
    by (simp add: py_contains_def lit_def)
  then show ?thesis
    by (simp add: get_secret_name_def secrets_holding_def py_getitem_def Let_def)
qed


lemma example_secrets_differ:
  "secret_a \<noteq> secret_b \<and> secret_a \<noteq> secret_c \<and> secret_b \<noteq> secret_c
   \<and> length secret_a = length secret_b"
  by (simp add: secret_a_def secret_b_def secret_c_def lit_def)

lemma example_json_loads_values:
  "example_json_loads secret_a
       = Inr (PDict [(lit ''user'', PStr (lit ''ab'')), (lit ''pass'', PStr (lit ''c''))])"
  "example_json_loads secret_b
       = Inr (PDict [(lit ''user'', PStr (lit ''a'')), (lit ''pass'', PStr (lit ''bc''))])"
  "example_json_loads secret_c
       = Inr (PDict [(lit ''user'', PStr (lit ''xy'')), (lit ''pass'', PStr (lit ''z''))])"
  "example_json_loads (lit ''1234567'') = Inr (PInt 1234567)"
  "example_json_loads (lit ''hunter2'') = Inl (Exc JSONDecodeError (lit ''Expecting value''))"
  "example_json_loads (lit ''passw0r'') = Inl (Exc JSONDecodeError (lit ''Expecting value''))"
  using example_secrets_differ
  by (simp_all add: example_json_loads_def secret_a_def secret_b_def secret_c_def lit_eq_iff)

lemma example_get_secret:
  "get_secret (secrets_holding s) example_json_loads
     = show_secret example_json_loads (PDict [(lit ''SecretString'', PStr s)])
         [(INFO, [L ''Attempting to list secrets in region '', S (lit ''eu-central-1'')]),
          (INFO, [L ''Found matching secret: '', V (PStr (lit ''rag-master-password''))]),
          (INFO, [L ''Attempting to retrieve secret: '', V (PStr (lit ''rag-master-password''))])]"
  by (simp add: get_secret_def example_secret_name Let_def)
     (simp add: secrets_holding_def)




subsection \<open>Query pipeline\<close>

lemma get_secret_returned:
  "get_secret boto3_client json_loads = (Inr password, lg)
   \<Longrightarrow> \<exists>secret_name client.
         fst (get_secret_name boto3_client (lit ''eu-central-1'') (lit ''rag'')) = Inr secret_name
       \<and> boto3_client (lit ''eu-central-1'') = Inr client"
  by (cases "get_secret_name boto3_client (lit ''eu-central-1'') (lit ''rag'')";
      cases "fst (get_secret_name boto3_client (lit ''eu-central-1'') (lit ''rag''))";
      cases "boto3_client (lit ''eu-central-1'')")
     (simp_all add: get_secret_def Let_def)

lemma get_secret_requests_returned:
  "fst (get_secret_name boto3_client (lit ''eu-central-1'') (lit ''rag'')) = Inr secret_name
   \<Longrightarrow> boto3_client (lit ''eu-central-1'') = Inr client
   \<Longrightarrow> get_secret_requests boto3_client
         = [ListSecrets (lit ''eu-central-1''), GetSecretValue secret_name]"
  by (simp add: get_secret_requests_def)

lemma get_opensearch_endpoint_raises:
  fixes boto3_client :: "pystr \<Rightarrow> exc + ('f::zero) es_client"
  shows "fst (get_opensearch_endpoint boto3_client domain_name region) = Inl e
         \<longleftrightarrow> boto3_client region = Inl e"
  by (auto simp: get_opensearch_endpoint_def Let_def split: option.splits sum.splits)

lemma main_chain:
  fixes sv :: "('f::zero) query_services"
  assumes "sv_bedrock_client sv (lit ''eu-central-1'') = Inr u"
    and "get_opensearch_endpoint (sv_es_client sv) (lit ''rag'') (lit ''eu-central-1'')
           = (Inr host, out)"
    and "get_secret (sv_secretsmanager sv) (sv_json_loads sv) = (Inr password, lg)"
  shows "fst (main sv)
           = (case fst (retrieval_chain_invoke sv (lit ''amazon.titan-text-lite-v1'')
                          (lit ''amazon.titan-embed-text-v1'') [L ''https://'', V host]
                          (lit ''rag'', password) (lit ''rag'')
                          (lit '' Can you describe the React approach?'')) of
                Inl e \<Rightarrow> Inl e | Inr response \<Rightarrow> Inr ())"
    and "snd (snd (main sv))
           = DescribeDomain (lit ''eu-central-1'') (lit ''rag'')
             # get_secret_requests (sv_secretsmanager sv)
             @ snd (retrieval_chain_invoke sv (lit ''amazon.titan-text-lite-v1'')
                          (lit ''amazon.titan-embed-text-v1'') [L ''https://'', V host]
                          (lit ''rag'', password) (lit ''rag'')
                          (lit '' Can you describe the React approach?''))"
  using assms by (simp_all add: main_def Let_def split: prod.splits sum.splits)

lemma main_before_chain:
  fixes sv :: "('f::zero) query_services"
  shows "sv_bedrock_client sv (lit ''eu-central-1'') = Inl e
         \<Longrightarrow> fst (main sv) = Inl e \<and> snd (snd (main sv)) = []"
    and "sv_bedrock_client sv (lit ''eu-central-1'') = Inr u
         \<Longrightarrow> sv_es_client sv (lit ''eu-central-1'') = Inl e
         \<Longrightarrow> fst (main sv) = Inl e \<and> snd (snd (main sv)) = []"
    and "sv_bedrock_client sv (lit ''eu-central-1'') = Inr u
         \<Longrightarrow> get_opensearch_endpoint (sv_es_client sv) (lit ''rag'') (lit ''eu-central-1'')
               = (Inr host, out)
         \<Longrightarrow> get_secret (sv_secretsmanager sv) (sv_json_loads sv) = (Inl e, lg)
         \<Longrightarrow> fst (main sv) = Inl e
             \<and> snd (snd (main sv)) = DescribeDomain (lit ''eu-central-1'') (lit ''rag'')
                                       # get_secret_requests (sv_secretsmanager sv)"
  by (simp_all add: main_def Let_def get_opensearch_endpoint_def)

lemma retrieval_chain_invoke_raises:
  "fst (retrieval_chain_invoke sv m em url auth index_name question) = Inl e \<Longrightarrow>
     sv_embed_query sv em question = Inl e
   \<or> (\<exists>vector. sv_knn_search sv url auth index_name vector = Inl e)
   \<or> (\<exists>docs. sv_invoke_model sv m docs question = Inl e)"
  by (auto simp: retrieval_chain_invoke_def split: sum.splits)

lemma main_raises:
  fixes sv :: "('f::zero) query_services"
  assumes f: "fst (main sv) = Inl e"
  shows "sv_bedrock_client sv (lit ''eu-central-1'') = Inl e
       \<or> sv_es_client sv (lit ''eu-central-1'') = Inl e
       \<or> fst (get_secret (sv_secretsmanager sv) (sv_json_loads sv)) = Inl e
       \<or> sv_embed_query sv (lit ''amazon.titan-embed-text-v1'')
            (lit '' Can you describe the React approach?'') = Inl e
       \<or> (\<exists>url auth vector. sv_knn_search sv url auth (lit ''rag'') vector = Inl e)
       \<or> (\<exists>docs. sv_invoke_model sv (lit ''amazon.titan-text-lite-v1'') docs
                     (lit '' Can you describe the React approach?'') = Inl e)"
proof (cases "sv_bedrock_client sv (lit ''eu-central-1'')")
  case (Inl e')
  with f show ?thesis by (simp add: main_def Let_def)
next
  case b: (Inr u)
  obtain h out where ep: "get_opensearch_endpoint (sv_es_client sv) (lit ''rag'')
                            (lit ''eu-central-1'') = (h, out)"
    by (cases "get_opensearch_endpoint (sv_es_client sv) (lit ''rag'') (lit ''eu-central-1'')")
  show ?thesis
  proof (cases h)
    case (Inl e')
    with f b ep have "e' = e" by (simp add: main_def Let_def)
    with Inl ep get_opensearch_endpoint_raises[of "sv_es_client sv" "lit ''rag''"
            "lit ''eu-central-1''" e]
    show ?thesis by simp
  next
    case h: (Inr host)
    obtain r lg where gs: "get_secret (sv_secretsmanager sv) (sv_json_loads sv) = (r, lg)"
      by (cases "get_secret (sv_secretsmanager sv) (sv_json_loads sv)")
    show ?thesis
    proof (cases r)
      case (Inl e')
      with f b ep h gs show ?thesis by (simp add: main_def Let_def)
    next
      case (Inr password)
      from main_chain(1)[OF b ep[unfolded h] gs[unfolded Inr]] f
      have "fst (retrieval_chain_invoke sv (lit ''amazon.titan-text-lite-v1'')
                          (lit ''amazon.titan-embed-text-v1'') [L ''https://'', V host]
                          (lit ''rag'', password) (lit ''rag'')
                          (lit '' Can you describe the React approach?'')) = Inl e"
        by (simp split: sum.splits)
      from retrieval_chain_invoke_raises[OF this] show ?thesis by blast
    qed
  qed
qed


text \<open>
  Claim C3, as the code has it. The query pipeline has no check of the embedding's
  dimension and raises no \<open>ConfigurationError\<close> of its own. Once the Bedrock client is
  created, \<open>main\<close> asks for the endpoint and for the secret (\<open>list_secrets\<close>,
  \<open>get_secret_value\<close>), and only then runs the chain: the question is embedded and the
  vector is sent to the index in the search request, whatever its length. An exception of
  the embedding, of the search or of the language model leaves \<open>main\<close> as it was
  raised, after the requests made so far; when the three succeed, \<open>main\<close> returns. An
  exception of creating a client, or of \<open>get_secret\<close>, leaves \<open>main\<close> before the
  chain runs. Every exception that leaves \<open>main\<close> is one of these.
\<close>

theorem main_no_dimension_check:
  fixes sv :: "('f::zero) query_services"
  shows
   "(let region = lit ''eu-central-1'';
         index_name = lit ''rag'';
         bedrock_model_id = lit ''amazon.titan-text-lite-v1'';
         bedrock_embedding_model_id = lit ''amazon.titan-embed-text-v1'';
         question = lit '' Can you describe the React approach?'';
         lookup = get_opensearch_endpoint (sv_es_client sv) (lit ''rag'') region;
         secret = get_secret (sv_secretsmanager sv) (sv_json_loads sv);
         embedded = sv_embed_query sv bedrock_embedding_model_id question;
         embed = EmbedQuery bedrock_embedding_model_id question
     in
       (\<forall>u host out password lg.
            sv_bedrock_client sv region = Inr u \<and> lookup = (Inr host, out)
          \<and> secret = (Inr password, lg)
          \<longrightarrow> (\<exists>secret_name.
                 fst (get_secret_name (sv_secretsmanager sv) region (lit ''rag'')) = Inr secret_name
               \<and> (let before = [DescribeDomain region (lit ''rag''), ListSecrets region,
                                 GetSecretValue secret_name];
                       search = sv_knn_search sv [L ''https://'', V host] (index_name, password)
                                  index_name
                   in
                     (\<forall>e. embedded = Inl e
                        \<longrightarrow> fst (main sv) = Inl e
                          \<and> snd (snd (main sv)) = before @ [embed])
                   \<and> (\<forall>vector e. embedded = Inr vector \<and> search vector = Inl e
                        \<longrightarrow> fst (main sv) = Inl e
                          \<and> snd (snd (main sv))
                              = before @ [embed, KnnSearch index_name vector])
                   \<and> (\<forall>vector docs e. embedded = Inr vector \<and> search vector = Inr docs
                          \<and> sv_invoke_model sv bedrock_model_id docs question = Inl e
                        \<longrightarrow> fst (main sv) = Inl e
                          \<and> snd (snd (main sv))
                              = before @ [embed, KnnSearch index_name vector,
                                          InvokeModel bedrock_model_id])
                   \<and> (\<forall>vector docs answer. embedded = Inr vector \<and> search vector = Inr docs
                          \<and> sv_invoke_model sv bedrock_model_id docs question = Inr answer
                        \<longrightarrow> fst (main sv) = Inr ()
                          \<and> snd (snd (main sv))
                              = before @ [embed, KnnSearch index_name vector,
                                          InvokeModel bedrock_model_id]))))
     \<and> (\<forall>e. sv_bedrock_client sv region = Inl e
          \<longrightarrow> fst (main sv) = Inl e \<and> snd (snd (main sv)) = [])
     \<and> (\<forall>u e. sv_bedrock_client sv region = Inr u \<and> sv_es_client sv region = Inl e
          \<longrightarrow> fst (main sv) = Inl e \<and> snd (snd (main sv)) = [])
     \<and> (\<forall>u host out e lg.
            sv_bedrock_client sv region = Inr u \<and> lookup = (Inr host, out)
          \<and> secret = (Inl e, lg)
          \<longrightarrow> fst (main sv) = Inl e
            \<and> snd (snd (main sv))
                = DescribeDomain region (lit ''rag'') # get_secret_requests (sv_secretsmanager sv))
     \<and> (\<forall>e. fst (main sv) = Inl e
          \<longrightarrow> sv_bedrock_client sv region = Inl e
            \<or> sv_es_client sv region = Inl e
            \<or> fst secret = Inl e
            \<or> embedded = Inl e
            \<or> (\<exists>url auth vector. sv_knn_search sv url auth index_name vector = Inl e)
            \<or> (\<exists>docs. sv_invoke_model sv bedrock_model_id docs question = Inl e)))"
proof -
  let ?region = "lit ''eu-central-1''"
  let ?llm = "lit ''amazon.titan-text-lite-v1''"
  let ?em = "lit ''amazon.titan-embed-text-v1''"
  let ?q = "lit '' Can you describe the React approach?''"
  have chain: "\<exists>secret_name.
       fst (get_secret_name (sv_secretsmanager sv) ?region (lit ''rag'')) = Inr secret_name
     \<and> (\<forall>e. sv_embed_query sv ?em ?q = Inl e
          \<longrightarrow> fst (main sv) = Inl e
            \<and> snd (snd (main sv))
                = [DescribeDomain ?region (lit ''rag''), ListSecrets ?region,
                   GetSecretValue secret_name] @ [EmbedQuery ?em ?q])
     \<and> (\<forall>vector e. sv_embed_query sv ?em ?q = Inr vector
            \<and> sv_knn_search sv [L ''https://'', V host] (lit ''rag'', password) (lit ''rag'')
                vector = Inl e
          \<longrightarrow> fst (main sv) = Inl e
            \<and> snd (snd (main sv))
                = [DescribeDomain ?region (lit ''rag''), ListSecrets ?region,
                   GetSecretValue secret_name]
                  @ [EmbedQuery ?em ?q, KnnSearch (lit ''rag'') vector])
     \<and> (\<forall>vector docs e. sv_embed_query sv ?em ?q = Inr vector
            \<and> sv_knn_search sv [L ''https://'', V host] (lit ''rag'', password) (lit ''rag'')
                vector = Inr docs
            \<and> sv_invoke_model sv ?llm docs ?q = Inl e
          \<longrightarrow> fst (main sv) = Inl e
            \<and> snd (snd (main sv))
                = [DescribeDomain ?region (lit ''rag''), ListSecrets ?region,
                   GetSecretValue secret_name]
                  @ [EmbedQuery ?em ?q, KnnSearch (lit ''rag'') vector, InvokeModel ?llm])
     \<and> (\<forall>vector docs answer. sv_embed_query sv ?em ?q = Inr vector
            \<and> sv_knn_search sv [L ''https://'', V host] (lit ''rag'', password) (lit ''rag'')
                vector = Inr docs
            \<and> sv_invoke_model sv ?llm docs ?q = Inr answer
          \<longrightarrow> fst (main sv) = Inr ()
            \<and> snd (snd (main sv))
                = [DescribeDomain ?region (lit ''rag''), ListSecrets ?region,
                   GetSecretValue secret_name]
                  @ [EmbedQuery ?em ?q, KnnSearch (lit ''rag'') vector, InvokeModel ?llm])"
    if h: "sv_bedrock_client sv ?region = Inr u \<and>
           get_opensearch_endpoint (sv_es_client sv) (lit ''rag'') ?region = (Inr host, out) \<and>
           get_secret (sv_secretsmanager sv) (sv_json_loads sv) = (Inr password, lg)"
    for u host out password lg
  proof -
    from h have b: "sv_bedrock_client sv ?region = Inr u"
      and ep: "get_opensearch_endpoint (sv_es_client sv) (lit ''rag'') ?region = (Inr host, out)"
      and gs: "get_secret (sv_secretsmanager sv) (sv_json_loads sv) = (Inr password, lg)"
      by simp_all
    from get_secret_returned[OF gs] obtain secret_name client where
      n: "fst (get_secret_name (sv_secretsmanager sv) ?region (lit ''rag'')) = Inr secret_name"
      and c: "sv_secretsmanager sv ?region = Inr client" by blast
    note rq = get_secret_requests_returned[OF n c]
    note m1 = main_chain(1)[OF b ep gs]
    note m2 = main_chain(2)[OF b ep gs, unfolded rq]
    show ?thesis
    proof (intro exI[of _ secret_name] conjI allI impI)
      show "fst (get_secret_name (sv_secretsmanager sv) ?region (lit ''rag'')) = Inr secret_name"
        by (rule n)
    qed (simp_all add: m1 m2 retrieval_chain_invoke_def)
  qed
  have before1: "\<forall>e. sv_bedrock_client sv ?region = Inl e
          \<longrightarrow> fst (main sv) = Inl e \<and> snd (snd (main sv)) = []"
    using main_before_chain(1)[of sv] by blast
  have before2: "\<forall>u e. sv_bedrock_client sv ?region = Inr u \<and> sv_es_client sv ?region = Inl e
          \<longrightarrow> fst (main sv) = Inl e \<and> snd (snd (main sv)) = []"
    using main_before_chain(2)[of sv] by blast
  have before3: "\<forall>u host out e lg.
            sv_bedrock_client sv ?region = Inr u
          \<and> get_opensearch_endpoint (sv_es_client sv) (lit ''rag'') ?region = (Inr host, out)
          \<and> get_secret (sv_secretsmanager sv) (sv_json_loads sv) = (Inl e, lg)
          \<longrightarrow> fst (main sv) = Inl e
            \<and> snd (snd (main sv))
                = DescribeDomain ?region (lit ''rag'') # get_secret_requests (sv_secretsmanager sv)"
    using main_before_chain(3)[of sv] by blast
  have origin: "\<forall>e. fst (main sv) = Inl e
          \<longrightarrow> sv_bedrock_client sv ?region = Inl e
            \<or> sv_es_client sv ?region = Inl e
            \<or> fst (get_secret (sv_secretsmanager sv) (sv_json_loads sv)) = Inl e
            \<or> sv_embed_query sv ?em ?q = Inl e
            \<or> (\<exists>url auth vector. sv_knn_search sv url auth (lit ''rag'') vector = Inl e)
            \<or> (\<exists>docs. sv_invoke_model sv ?llm docs ?q = Inl e)"
    using main_raises[of sv] by blast
  from chain before1 before2 before3 origin show ?thesis
    unfolding Let_def by blast
qed


lemma lit_empty: "lit s = [] \<longleftrightarrow> s = []"
  by (simp add: lit_def)

lemma example_password:
  "get_secret (secrets_holding (lit ''hunter2'')) example_json_loads
     = (Inr (PStr (lit ''hunter2'')),
        [(INFO, [L ''Attempting to list secrets in region '', S (lit ''eu-central-1'')]),
         (INFO, [L ''Found matching secret: '', V (PStr (lit ''rag-master-password''))]),
         (INFO, [L ''Attempting to retrieve secret: '', V (PStr (lit ''rag-master-password''))]),
         (INFO, [L ''Secret retrieved successfully'']),
         (INFO, [L ''Secret is not in JSON format. Raw secret (masked):'']),
         (INFO, [S (replicate (length (lit ''hunter2'')) 42)])])"
  by (simp add: example_get_secret
        show_secret_raw[of example_json_loads "lit ''hunter2''", OF example_json_loads_values(5)])

lemma example_endpoint:
  "get_opensearch_endpoint
     (\<lambda>region. Inr (\<lambda>domain_name.
        Inr (PDict [(lit ''DomainStatus'',
               PDict [(lit ''Endpoint'', PStr (lit ''search-rag.eu-central-1.es.amazonaws.com''))])])))
     (lit ''rag'') (lit ''eu-central-1'')
   = (Inr (PStr (lit ''search-rag.eu-central-1.es.amazonaws.com'') :: real pyval),
      [(Stdout, [L ''Attempting to describe OpenSearch domain: '', S (lit ''rag'')]),
       (Stdout, [L ''Domain description retrieved successfully'']),
       (Stdout, [L ''Endpoint: '', V (PStr (lit ''search-rag.eu-central-1.es.amazonaws.com''))])])"
  by (simp add: get_opensearch_endpoint_def Let_def py_getitem_def py_get_def lit_empty)

text \<open>
  Claim C3 as stated says that a query embedding of a dimension other than 1536 fails with
  \<open>ConfigurationError\<close> before any network call. Here the embedding has dimension 3 and
  the index rejects it: \<open>main\<close> fails with the error of the search engine, after five
  requests, the search with the 3-dimensional vector the last of them.
\<close>

theorem main_dimension_counterexample:
  "sv_embed_query example_services (lit ''amazon.titan-embed-text-v1'')
     (lit '' Can you describe the React approach?'') = Inr [0.1, 0.2, 0.3]
   \<and> length [0.1, 0.2, 0.3 :: real] \<noteq> 1536
   \<and> fst (main example_services)
     = Inl (Exc (OtherError ''RequestError'') (lit ''Query vector has invalid dimension''))
   \<and> snd (snd (main example_services))
     = [DescribeDomain (lit ''eu-central-1'') (lit ''rag''),
        ListSecrets (lit ''eu-central-1''),
        GetSecretValue (PStr (lit ''rag-master-password'')),
        EmbedQuery (lit ''amazon.titan-embed-text-v1'') (lit '' Can you describe the React approach?''),
        KnnSearch (lit ''rag'') [0.1, 0.2, 0.3]]"
  by (simp add: main_def example_services_def example_endpoint example_password
        get_secret_requests_def example_secret_name retrieval_chain_invoke_def Let_def)
     (simp add: secrets_holding_def example_secret_name)

theorem main_no_dimension_check_witness:
  "fst (main example_services)
     = Inl (Exc (OtherError ''RequestError'') (lit ''Query vector has invalid dimension''))
   \<and> snd (snd (main example_services))
     = [DescribeDomain (lit ''eu-central-1'') (lit ''rag''),
        ListSecrets (lit ''eu-central-1''),
        GetSecretValue (PStr (lit ''rag-master-password'')),
        EmbedQuery (lit ''amazon.titan-embed-text-v1'') (lit '' Can you describe the React approach?''),
        KnnSearch (lit ''rag'') [0.1, 0.2, 0.3]]
   \<and> fst (main (example_services\<lparr>sv_embed_query :=
                   \<lambda>model_id question. Inr (replicate 1536 0.1)\<rparr>)) = Inr ()
   \<and> snd (snd (main (example_services\<lparr>sv_embed_query :=
                   \<lambda>model_id question. Inr (replicate 1536 0.1)\<rparr>)))
     = [DescribeDomain (lit ''eu-central-1'') (lit ''rag''),
        ListSecrets (lit ''eu-central-1''),
        GetSecretValue (PStr (lit ''rag-master-password'')),
        EmbedQuery (lit ''amazon.titan-embed-text-v1'') (lit '' Can you describe the React approach?''),
        KnnSearch (lit ''rag'') (replicate 1536 0.1),
        InvokeModel (lit ''amazon.titan-text-lite-v1'')]
   \<and> fst (main (example_services\<lparr>sv_bedrock_client :=
                   \<lambda>region. Inl (Exc (OtherError ''InvalidRegionError'') (lit ''invalid region''))\<rparr>))
     = Inl (Exc (OtherError ''InvalidRegionError'') (lit ''invalid region''))
   \<and> snd (snd (main (example_services\<lparr>sv_bedrock_client :=
                   \<lambda>region. Inl (Exc (OtherError ''InvalidRegionError'') (lit ''invalid region''))\<rparr>)))
     = []"
proof -
  let ?pw = "PStr (lit ''hunter2'') :: real pyval"
  let ?host = "PStr (lit ''search-rag.eu-central-1.es.amazonaws.com'') :: real pyval"
  let ?name = "PStr (lit ''rag-master-password'') :: real pyval"
  let ?sv2 = "example_services\<lparr>sv_embed_query :=
                   \<lambda>model_id question. Inr (replicate 1536 0.1)\<rparr>"
  let ?sv3 = "example_services\<lparr>sv_bedrock_client :=
                   \<lambda>region. Inl (Exc (OtherError ''InvalidRegionError'') (lit ''invalid region''))\<rparr>"
  have h1: "sv_bedrock_client example_services (lit ''eu-central-1'') = Inr ()
      \<and> get_opensearch_endpoint (sv_es_client example_services) (lit ''rag'') (lit ''eu-central-1'')
          = (Inr ?host,
             [(Stdout, [L ''Attempting to describe OpenSearch domain: '', S (lit ''rag'')]),
              (Stdout, [L ''Domain description retrieved successfully'']),
              (Stdout, [L ''Endpoint: '', V ?host])])
      \<and> get_secret (sv_secretsmanager example_services) (sv_json_loads example_services)
          = (Inr ?pw,
        [(INFO, [L ''Attempting to list secrets in region '', S (lit ''eu-central-1'')]),
         (INFO, [L ''Found matching secret: '', V (PStr (lit ''rag-master-password''))]),
         (INFO, [L ''Attempting to retrieve secret: '', V (PStr (lit ''rag-master-password''))]),
         (INFO, [L ''Secret retrieved successfully'']),
         (INFO, [L ''Secret is not in JSON format. Raw secret (masked):'']),
         (INFO, [S (replicate (length (lit ''hunter2'')) 42)])])"
    by (simp add: example_services_def example_endpoint example_password)
  have h2: "sv_bedrock_client ?sv2 (lit ''eu-central-1'') = Inr ()
      \<and> get_opensearch_endpoint (sv_es_client ?sv2) (lit ''rag'') (lit ''eu-central-1'')
          = (Inr ?host,
             [(Stdout, [L ''Attempting to describe OpenSearch domain: '', S (lit ''rag'')]),
              (Stdout, [L ''Domain description retrieved successfully'']),
              (Stdout, [L ''Endpoint: '', V ?host])])
      \<and> get_secret (sv_secretsmanager ?sv2) (sv_json_loads ?sv2)
          = (Inr ?pw,
        [(INFO, [L ''Attempting to list secrets in region '', S (lit ''eu-central-1'')]),
         (INFO, [L ''Found matching secret: '', V (PStr (lit ''rag-master-password''))]),
         (INFO, [L ''Attempting to retrieve secret: '', V (PStr (lit ''rag-master-password''))]),
         (INFO, [L ''Secret retrieved successfully'']),
         (INFO, [L ''Secret is not in JSON format. Raw secret (masked):'']),
         (INFO, [S (replicate (length (lit ''hunter2'')) 42)])])"
    by (simp add: example_services_def example_endpoint example_password)
  have n1: "fst (get_secret_name (sv_secretsmanager example_services) (lit ''eu-central-1'')
                   (lit ''rag'')) = Inr ?name"
    and n2: "fst (get_secret_name (sv_secretsmanager ?sv2) (lit ''eu-central-1'')
                   (lit ''rag'')) = Inr ?name"
    by (simp_all add: example_services_def example_secret_name)
  from main_no_dimension_check[of example_services, unfolded Let_def, THEN conjunct1,
         rule_format, OF h1]
  obtain s1 where
    s1: "fst (get_secret_name (sv_secretsmanager example_services) (lit ''eu-central-1'')
                (lit ''rag'')) = Inr s1"
    and k1: "\<forall>vector e.
          sv_embed_query example_services (lit ''amazon.titan-embed-text-v1'')
            (lit '' Can you describe the React approach?'') = Inr vector
        \<and> sv_knn_search example_services [L ''https://'', V ?host] (lit ''rag'', ?pw) (lit ''rag'')
            vector = Inl e
        \<longrightarrow> fst (main example_services) = Inl e
          \<and> snd (snd (main example_services))
              = [DescribeDomain (lit ''eu-central-1'') (lit ''rag''), ListSecrets (lit ''eu-central-1''),
                 GetSecretValue s1]
                @ [EmbedQuery (lit ''amazon.titan-embed-text-v1'')
                     (lit '' Can you describe the React approach?''),
                   KnnSearch (lit ''rag'') vector]"
    by blast
  from s1 n1 have e1: "s1 = ?name" by simp
  have q1: "sv_embed_query example_services (lit ''amazon.titan-embed-text-v1'')
            (lit '' Can you describe the React approach?'') = Inr [0.1, 0.2, 0.3]
        \<and> sv_knn_search example_services [L ''https://'', V ?host] (lit ''rag'', ?pw) (lit ''rag'')
            [0.1, 0.2, 0.3]
          = Inl (Exc (OtherError ''RequestError'') (lit ''Query vector has invalid dimension''))"
    by (simp add: example_services_def)
  note r1 = k1[rule_format, OF q1, unfolded e1]
  from main_no_dimension_check[of ?sv2, unfolded Let_def, THEN conjunct1, rule_format, OF h2]
  obtain s2 where
    s2: "fst (get_secret_name (sv_secretsmanager ?sv2) (lit ''eu-central-1'')
                (lit ''rag'')) = Inr s2"
    and k2: "\<forall>vector docs answer.
          sv_embed_query ?sv2 (lit ''amazon.titan-embed-text-v1'')
            (lit '' Can you describe the React approach?'') = Inr vector
        \<and> sv_knn_search ?sv2 [L ''https://'', V ?host] (lit ''rag'', ?pw) (lit ''rag'')
            vector = Inr docs
        \<and> sv_invoke_model ?sv2 (lit ''amazon.titan-text-lite-v1'') docs
            (lit '' Can you describe the React approach?'') = Inr answer
        \<longrightarrow> fst (main ?sv2) = Inr ()
          \<and> snd (snd (main ?sv2))
              = [DescribeDomain (lit ''eu-central-1'') (lit ''rag''), ListSecrets (lit ''eu-central-1''),
                 GetSecretValue s2]
                @ [EmbedQuery (lit ''amazon.titan-embed-text-v1'')
                     (lit '' Can you describe the React approach?''),
                   KnnSearch (lit ''rag'') vector,
                   InvokeModel (lit ''amazon.titan-text-lite-v1'')]"
    by blast
  from s2 n2 have e2: "s2 = ?name" by simp
  have q2: "sv_embed_query ?sv2 (lit ''amazon.titan-embed-text-v1'')
            (lit '' Can you describe the React approach?'') = Inr (replicate 1536 0.1)
        \<and> sv_knn_search ?sv2 [L ''https://'', V ?host] (lit ''rag'', ?pw) (lit ''rag'')
            (replicate 1536 0.1) = Inr []
        \<and> sv_invoke_model ?sv2 (lit ''amazon.titan-text-lite-v1'') []
            (lit '' Can you describe the React approach?'') = Inr (lit ''I do not know.'')"
    by (simp add: example_services_def)
  note r2 = k2[rule_format, OF q2, unfolded e2]
  have q3: "sv_bedrock_client ?sv3 (lit ''eu-central-1'')
              = Inl (Exc (OtherError ''InvalidRegionError'') (lit ''invalid region''))"
    by simp
  note r3 = main_no_dimension_check[of ?sv3, unfolded Let_def, THEN conjunct2, THEN conjunct1,
              rule_format, OF q3]
  from r1 r2 r3 show ?thesis by simp
qed

end
